theory Spec2Isabelle
  imports Complex_Main
begin

section \<open>Errors and Python arithmetic\<close>

text \<open>
  The exceptions the script can raise, as values.  \<open>AssertionError\<close> is the
  \<^verbatim>\<open>assert\<close> of \<^verbatim>\<open>ViT.__init__\<close>, \<open>ZeroDivisionError\<close> comes from
  \<^verbatim>\<open>%\<close>, \<^verbatim>\<open>//\<close>, \<^verbatim>\<open>/\<close> and \<^verbatim>\<open>0 ** -0.5\<close>, \<open>NameError\<close> from reading a
  global that is not bound, \<open>ValueError\<close> and \<open>RuntimeError\<close> are raised by the
  tensor library (a dropout probability outside \<open>[0, 1]\<close>; a shape mismatch).
\<close>

datatype error =
  AssertionError
  | ZeroDivisionError
  | NameError string
  | ValueError
  | RuntimeError

text \<open>Sizes are natural numbers; \<^verbatim>\<open>a % b\<close> and \<^verbatim>\<open>a // b\<close> raise on \<open>b = 0\<close>.\<close>

definition py_mod :: "nat \<Rightarrow> nat \<Rightarrow> error + nat" where
  "py_mod a b = (if b = 0 then Inl ZeroDivisionError else Inr (a mod b))"

definition py_floordiv :: "nat \<Rightarrow> nat \<Rightarrow> error + nat" where
  "py_floordiv a b = (if b = 0 then Inl ZeroDivisionError else Inr (a div b))"

text \<open>\<^verbatim>\<open>b ** -0.5\<close> for an integer \<open>b \<ge> 0\<close>: a float, and \<open>0 ** -0.5\<close> raises.\<close>

definition py_pow_neg_half :: "nat \<Rightarrow> error + real" where
  "py_pow_neg_half b = (if b = 0 then Inl ZeroDivisionError else Inr (real b powr (- 0.5)))"

section \<open>Modules and their parameters\<close>

text \<open>
  A parameter tensor has a shape and a payload \<open>'p\<close>.  A module tree built by a
  constructor holds the identity of each parameter object (\<open>'p = nat\<close>, allocated from
  a counter, so that two modules share a parameter exactly when they hold the same
  number); a module tree with its weights filled in holds the values (row-major,
  \<open>'p = real list\<close>).
\<close>

datatype 'p Parameter = Parameter (shape: "nat list") (data: 'p)

datatype 'p LayerNorm =
  LayerNorm (normalized_shape: nat) (ln_weight: "'p Parameter") (ln_bias: "'p Parameter")

datatype 'p Linear =
  Linear (in_features: nat) (out_features: nat)
    (lin_weight: "'p Parameter") (lin_bias: "'p Parameter option")

datatype 'p Conv2d =
  Conv2d (in_channels: nat) (out_channels: nat) (kernel_size: nat) (stride: nat)
    (conv_weight: "'p Parameter") (conv_bias: "'p Parameter")

datatype Dropout = Dropout (drop_p: real)

text \<open>\<^verbatim>\<open>FeedForward.net\<close>: Linear, GELU, Dropout, Linear, Dropout (GELU has no state).\<close>

datatype 'p FeedForward =
  FeedForward (net0: "'p Linear") (net2: Dropout) (net3: "'p Linear") (net4: Dropout)

text \<open>\<^verbatim>\<open>Attention\<close>: \<open>heads\<close>, \<open>scale\<close>, \<open>to_qkv\<close> and \<open>to_out = Sequential(Linear, Dropout)\<close>.\<close>

datatype 'p Attention =
  Attention (attn_heads: nat) (scale: real) (to_qkv: "'p Linear")
    (to_out0: "'p Linear") (to_out1: Dropout)

datatype 'p sublayer = AttentionFn "'p Attention" | FeedForwardFn "'p FeedForward"

datatype 'p PreNorm = PreNorm (norm: "'p LayerNorm") (fn: "'p sublayer")

datatype 'p Transformer = Transformer (layers: "('p PreNorm \<times> 'p PreNorm) list")

datatype 'p ViT =
  ViT (vit_patch_size: nat) (vit_dim: nat)
    (to_patch_embedding: "'p Conv2d")
    (pos_embedding: "'p Parameter") (cls_token: "'p Parameter")
    (vit_dropout: Dropout)
    (transformer: "'p Transformer")
    (mlp_head0: "'p LayerNorm") (mlp_head1: "'p Linear")

subsection \<open>Constructors of the tensor library\<close>

text \<open>
  \<^verbatim>\<open>nn.LayerNorm\<close>, \<^verbatim>\<open>nn.Linear\<close>, \<^verbatim>\<open>nn.Conv2d\<close> and \<^verbatim>\<open>nn.Dropout\<close> are library
  classes.  Each call creates new parameter objects: the constructor takes the next free
  identity \<open>k\<close> and returns the module and the next free identity after it.
  \<^verbatim>\<open>nn.Dropout(p)\<close> raises \<open>ValueError\<close> unless \<open>0 \<le> p \<le> 1\<close>.
\<close>

definition nn_LayerNorm :: "nat \<Rightarrow> nat \<Rightarrow> nat LayerNorm \<times> nat" where
  "nn_LayerNorm d k = (LayerNorm d (Parameter [d] k) (Parameter [d] (k + 1)), k + 2)"

definition nn_Linear :: "nat \<Rightarrow> nat \<Rightarrow> bool \<Rightarrow> nat \<Rightarrow> nat Linear \<times> nat" where
  "nn_Linear i out b k =
     (if b then (Linear i out (Parameter [out, i] k) (Some (Parameter [out] (k + 1))), k + 2)
      else (Linear i out (Parameter [out, i] k) None, k + 1))"

definition nn_Conv2d :: "nat \<Rightarrow> nat \<Rightarrow> nat \<Rightarrow> nat \<Rightarrow> nat \<Rightarrow> nat Conv2d \<times> nat" where
  "nn_Conv2d ic oc ks st k =
     (Conv2d ic oc ks st (Parameter [oc, ic, ks, ks] k) (Parameter [oc] (k + 1)), k + 2)"

definition nn_Dropout :: "real \<Rightarrow> error + Dropout" where
  "nn_Dropout p = (if p < 0 \<or> 1 < p then Inl ValueError else Inr (Dropout p))"

subsection \<open>Constructors of the script\<close>

text \<open>\<^verbatim>\<open>PreNorm.__init__(dim, fn)\<close>: its own \<^verbatim>\<open>nn.LayerNorm(dim)\<close> and the given \<open>fn\<close>.\<close>

definition PreNorm_init :: "nat \<Rightarrow> nat sublayer \<Rightarrow> nat \<Rightarrow> nat PreNorm \<times> nat" where
  "PreNorm_init d f k = (case nn_LayerNorm d k of (nrm, k') \<Rightarrow> (PreNorm nrm f, k'))"

text \<open>\<^verbatim>\<open>FeedForward.__init__(dim, hidden_dim, dropout)\<close>.\<close>

definition FeedForward_init ::
  "nat \<Rightarrow> nat \<Rightarrow> real \<Rightarrow> nat \<Rightarrow> error + (nat FeedForward \<times> nat)" where
  "FeedForward_init d hidden_dim p k =
     (case nn_Linear d hidden_dim True k of (l0, k1) \<Rightarrow>
      case nn_Dropout p of Inl e \<Rightarrow> Inl e | Inr d2 \<Rightarrow>
      case nn_Linear hidden_dim d True k1 of (l3, k2) \<Rightarrow>
      case nn_Dropout p of Inl e \<Rightarrow> Inl e | Inr d4 \<Rightarrow>
      Inr (FeedForward l0 d2 l3 d4, k2))"

text \<open>
  \<^verbatim>\<open>Attention.__init__(dim, heads, dropout)\<close>: \<^verbatim>\<open>self.scale = (dim // heads) ** -0.5\<close>,
  with floor division and no test that \<open>heads\<close> divides \<open>dim\<close>.
\<close>

definition Attention_init ::
  "nat \<Rightarrow> nat \<Rightarrow> real \<Rightarrow> nat \<Rightarrow> error + (nat Attention \<times> nat)" where
  "Attention_init d h p k =
     (case py_floordiv d h of Inl e \<Rightarrow> Inl e | Inr dh \<Rightarrow>
      case py_pow_neg_half dh of Inl e \<Rightarrow> Inl e | Inr sc \<Rightarrow>
      case nn_Linear d (d * 3) False k of (qkv, k1) \<Rightarrow>
      case nn_Linear d d True k1 of (out, k2) \<Rightarrow>
      case nn_Dropout p of Inl e \<Rightarrow> Inl e | Inr dr \<Rightarrow>
      Inr (Attention h sc qkv out dr, k2))"

text \<open>
  \<^verbatim>\<open>Transformer.__init__\<close>: the loop \<^verbatim>\<open>for _ in range(depth)\<close> appends one pair
  \<open>(PreNorm(dim, Attention(...)), PreNorm(dim, FeedForward(...)))\<close> per round; the
  argument of each \<open>PreNorm\<close> is constructed before the \<open>PreNorm\<close> itself.
\<close>

fun Transformer_layers ::
  "nat \<Rightarrow> nat \<Rightarrow> nat \<Rightarrow> real \<Rightarrow> nat \<Rightarrow> nat \<Rightarrow> error + ((nat PreNorm \<times> nat PreNorm) list \<times> nat)" where
  "Transformer_layers d h mlp_d p 0 k = Inr ([], k)"
| "Transformer_layers d h mlp_d p (Suc n) k =
     (case Attention_init d h p k of Inl e \<Rightarrow> Inl e | Inr (a, k1) \<Rightarrow>
      case PreNorm_init d (AttentionFn a) k1 of (pa, k2) \<Rightarrow>
      case FeedForward_init d mlp_d p k2 of Inl e \<Rightarrow> Inl e | Inr (f, k3) \<Rightarrow>
      case PreNorm_init d (FeedForwardFn f) k3 of (pf, k4) \<Rightarrow>
      case Transformer_layers d h mlp_d p n k4 of Inl e \<Rightarrow> Inl e | Inr (ls, k5) \<Rightarrow>
      Inr ((pa, pf) # ls, k5))"

definition Transformer_init ::
  "nat \<Rightarrow> nat \<Rightarrow> nat \<Rightarrow> nat \<Rightarrow> real \<Rightarrow> nat \<Rightarrow> error + (nat Transformer \<times> nat)" where
  "Transformer_init d dep h mlp_d p k =
     (case Transformer_layers d h mlp_d p dep k of Inl e \<Rightarrow> Inl e
      | Inr (ls, k') \<Rightarrow> Inr (Transformer ls, k'))"

text \<open>The keyword arguments of \<^verbatim>\<open>ViT.__init__\<close>.\<close>

record config =
  image_size :: nat
  patch_size :: nat
  num_classes :: nat
  dim :: nat
  depth :: nat
  heads :: nat
  mlp_dim :: nat
  channels :: nat
  dropout :: real
  emb_dropout :: real

text \<open>
  \<^verbatim>\<open>ViT.__init__\<close>, statement by statement: the \<^verbatim>\<open>assert\<close> on
  \<^verbatim>\<open>image_size % patch_size\<close>, \<open>num_patches\<close>, the patch convolution, the two
  parameters \<open>pos_embedding [1, num_patches + 1, dim]\<close> and \<open>cls_token [1, 1, dim]\<close>, the
  embedding dropout, the transformer and the head \<open>Sequential(LayerNorm, Linear)\<close>.
\<close>

definition ViT_init :: "config \<Rightarrow> nat \<Rightarrow> error + (nat ViT \<times> nat)" where
  "ViT_init c k =
     (case py_mod (image_size c) (patch_size c) of Inl e \<Rightarrow> Inl e | Inr r \<Rightarrow>
      if r \<noteq> 0 then Inl AssertionError else
      case py_floordiv (image_size c) (patch_size c) of Inl e \<Rightarrow> Inl e | Inr g \<Rightarrow>
      let num_patches = g ^ 2 in
      case nn_Conv2d (channels c) (dim c) (patch_size c) (patch_size c) k of (conv, k1) \<Rightarrow>
      let pos = Parameter [1, num_patches + 1, dim c] k1;
          cls = Parameter [1, 1, dim c] (k1 + 1) in
      case nn_Dropout (emb_dropout c) of Inl e \<Rightarrow> Inl e | Inr dr \<Rightarrow>
      case Transformer_init (dim c) (depth c) (heads c) (mlp_dim c) (dropout c) (k1 + 2) of
        Inl e \<Rightarrow> Inl e
      | Inr (tr, k2) \<Rightarrow>
      case nn_LayerNorm (dim c) k2 of (nrm, k3) \<Rightarrow>
      case nn_Linear (dim c) (num_classes c) True k3 of (hd_lin, k4) \<Rightarrow>
      Inr (ViT (patch_size c) (dim c) conv pos cls dr tr nrm hd_lin, k4))"

text \<open>The model of the from-scratch section (the constants at the top of the script).\<close>

definition script_config :: config where
  "script_config = \<lparr> image_size = 32, patch_size = 4, num_classes = 10, dim = 512,
     depth = 6, heads = 8, mlp_dim = 1024, channels = 3, dropout = 0.1, emb_dropout = 0.1 \<rparr>"


section \<open>The forward pass on shapes\<close>

text \<open>
  Every tensor operation of the library either returns a tensor whose shape is a
  function of the shapes of its arguments, or raises.  This section follows the
  \<^verbatim>\<open>forward\<close> methods statement by statement on shapes, so that the shape of every
  intermediate tensor and every shape error of a forward pass is a value of the model.
\<close>

type_synonym shape = "nat list"

subsection \<open>Shape rules of the library operations\<close>

text \<open>
  \<^verbatim>\<open>nn.Linear\<close> maps the last axis from \<open>in_features\<close> to \<open>out_features\<close>;
  \<^verbatim>\<open>nn.LayerNorm(d)\<close> needs the last axis to be \<open>d\<close>; dropout, GELU and softmax keep
  the shape.
\<close>

definition Linear_shape :: "'p Linear \<Rightarrow> shape \<Rightarrow> error + shape" where
  "Linear_shape l s =
     (if s = [] \<or> last s \<noteq> in_features l then Inl RuntimeError
      else Inr (butlast s @ [out_features l]))"

definition LayerNorm_shape :: "'p LayerNorm \<Rightarrow> shape \<Rightarrow> error + shape" where
  "LayerNorm_shape l s =
     (if s = [] \<or> last s \<noteq> normalized_shape l then Inl RuntimeError else Inr s)"

text \<open>
  \<^verbatim>\<open>nn.Conv2d\<close> without padding on a batch \<open>[b, c, h, w]\<close>: the channel count must be
  \<open>in_channels\<close> and the kernel must fit; the output has
  \<open>(h - kernel) div stride + 1\<close> rows and as many columns computed from \<open>w\<close>.
\<close>

definition Conv2d_shape :: "'p Conv2d \<Rightarrow> nat \<Rightarrow> nat \<Rightarrow> nat \<Rightarrow> nat \<Rightarrow> error + shape" where
  "Conv2d_shape cv b c h w =
     (if c \<noteq> in_channels cv \<or> kernel_size cv = 0 \<or> stride cv = 0
         \<or> h < kernel_size cv \<or> w < kernel_size cv
      then Inl RuntimeError
      else Inr [b, out_channels cv,
                (h - kernel_size cv) div stride cv + 1,
                (w - kernel_size cv) div stride cv + 1])"

text \<open>\<^verbatim>\<open>x.flatten(2)\<close> merges the axes from 2 on; \<^verbatim>\<open>x.transpose(1, 2)\<close> swaps axes 1 and 2.\<close>

definition flatten2_shape :: "shape \<Rightarrow> error + shape" where
  "flatten2_shape s =
     (if length s < 3 then Inl RuntimeError else Inr (take 2 s @ [prod_list (drop 2 s)]))"

definition transpose12_shape :: "shape \<Rightarrow> error + shape" where
  "transpose12_shape s =
     (if length s < 3 then Inl RuntimeError
      else Inr (s ! 0 # s ! 2 # s ! 1 # drop 3 s))"

text \<open>\<^verbatim>\<open>t.expand(b, -1, -1)\<close> on a three-axis tensor: axis 0 must be 1 (or already \<open>b\<close>).\<close>

definition expand0_shape :: "nat \<Rightarrow> shape \<Rightarrow> error + shape" where
  "expand0_shape b s =
     (case s of
        [d0, d1, d2] \<Rightarrow> if d0 = 1 \<or> d0 = b then Inr [b, d1, d2] else Inl RuntimeError
      | _ \<Rightarrow> Inl RuntimeError)"

text \<open>\<^verbatim>\<open>torch.cat((s, t), dim=1)\<close>: all axes but axis 1 must agree.\<close>

definition cat1_shape :: "shape \<Rightarrow> shape \<Rightarrow> error + shape" where
  "cat1_shape s t =
     (if length s < 2 \<or> length s \<noteq> length t \<or> s ! 0 \<noteq> t ! 0 \<or> drop 2 s \<noteq> drop 2 t
      then Inl RuntimeError
      else Inr (s ! 0 # (s ! 1 + t ! 1) # drop 2 s))"

text \<open>
  Broadcasting, on the reversed shapes: axes are aligned from the last one; two sizes
  are compatible when they are equal or one of them is 1.
\<close>

fun broadcast_rev :: "shape \<Rightarrow> shape \<Rightarrow> error + shape" where
  "broadcast_rev [] ys = Inr ys"
| "broadcast_rev (x # xs) [] = Inr (x # xs)"
| "broadcast_rev (x # xs) (y # ys) =
     (if x = y \<or> y = 1 then
        (case broadcast_rev xs ys of Inl e \<Rightarrow> Inl e | Inr r \<Rightarrow> Inr (x # r))
      else if x = 1 then
        (case broadcast_rev xs ys of Inl e \<Rightarrow> Inl e | Inr r \<Rightarrow> Inr (y # r))
      else Inl RuntimeError)"

text \<open>\<^verbatim>\<open>s + t\<close> has the broadcast shape.\<close>

definition add_shape :: "shape \<Rightarrow> shape \<Rightarrow> error + shape" where
  "add_shape s t =
     (case broadcast_rev (rev s) (rev t) of Inl e \<Rightarrow> Inl e | Inr r \<Rightarrow> Inr (rev r))"

text \<open>\<^verbatim>\<open>x += t\<close> writes into \<open>x\<close>: the broadcast shape must be the shape of \<open>x\<close>.\<close>

definition iadd_shape :: "shape \<Rightarrow> shape \<Rightarrow> error + shape" where
  "iadd_shape s t =
     (case add_shape s t of Inl e \<Rightarrow> Inl e
      | Inr r \<Rightarrow> if r = s then Inr s else Inl RuntimeError)"

text \<open>
  \<^verbatim>\<open>t.chunk(3, dim=-1)\<close>: the sizes of the pieces of a last axis of size \<open>n\<close>.  The
  piece size is \<open>n / 3\<close> rounded up; there can be fewer than three pieces.
\<close>

definition chunk3_sizes :: "nat \<Rightarrow> nat list" where
  "chunk3_sizes n =
     (if n = 0 then [0, 0, 0]
      else let cs = (n + 2) div 3
           in replicate (n div cs) cs @ (if n mod cs = 0 then [] else [n mod cs]))"

text \<open>
  \<^verbatim>\<open>t.reshape(d1, ..., dk, -1)\<close>: the last size is what is left of the number of
  elements; it raises when the given sizes do not divide that number, or multiply to 0.
\<close>

definition reshape_infer_shape :: "shape \<Rightarrow> nat list \<Rightarrow> error + shape" where
  "reshape_infer_shape s ds =
     (if prod_list ds = 0 \<or> prod_list s mod prod_list ds \<noteq> 0 then Inl RuntimeError
      else Inr (ds @ [prod_list s div prod_list ds]))"

text \<open>
  \<^verbatim>\<open>einsum('bhid,bhjd->bhij', q, k)\<close> and \<^verbatim>\<open>einsum('bhij,bhjd->bhid', a, v)\<close>: the
  axes that share a letter must agree.
\<close>

definition einsum_qk_shape :: "shape \<Rightarrow> shape \<Rightarrow> error + shape" where
  "einsum_qk_shape q k =
     (case (q, k) of
        ([b, h, i, d], [b', h', j, d']) \<Rightarrow>
          if b = b' \<and> h = h' \<and> d = d' then Inr [b, h, i, j] else Inl RuntimeError
      | _ \<Rightarrow> Inl RuntimeError)"

definition einsum_av_shape :: "shape \<Rightarrow> shape \<Rightarrow> error + shape" where
  "einsum_av_shape a v =
     (case (a, v) of
        ([b, h, i, j], [b', h', j', d]) \<Rightarrow>
          if b = b' \<and> h = h' \<and> j = j' then Inr [b, h, i, d] else Inl RuntimeError
      | _ \<Rightarrow> Inl RuntimeError)"

text \<open>\<^verbatim>\<open>x[:, 0]\<close> on \<open>[b, n, ...]\<close> needs \<open>n > 0\<close> and drops axis 1.\<close>

definition select_first_shape :: "shape \<Rightarrow> error + shape" where
  "select_first_shape s =
     (if length s < 2 \<or> s ! 1 = 0 then Inl RuntimeError else Inr (s ! 0 # drop 2 s))"

subsection \<open>The \<^verbatim>\<open>forward\<close> methods of the script, on shapes\<close>

text \<open>\<^verbatim>\<open>FeedForward.forward\<close>: Linear, GELU, Dropout, Linear, Dropout.\<close>

definition FeedForward_forward_shape :: "'p FeedForward \<Rightarrow> shape \<Rightarrow> error + shape" where
  "FeedForward_forward_shape f x =
     (case Linear_shape (net0 f) x of Inl e \<Rightarrow> Inl e | Inr y \<Rightarrow> Linear_shape (net3 f) y)"

text \<open>
  \<^verbatim>\<open>t.reshape(b, n, h, -1).transpose(1, 2)\<close>, applied to each of the three chunks.
\<close>

definition split_heads_shape :: "nat \<Rightarrow> nat \<Rightarrow> nat \<Rightarrow> shape \<Rightarrow> error + shape" where
  "split_heads_shape b n h t =
     (case reshape_infer_shape t [b, n, h] of Inl e \<Rightarrow> Inl e
      | Inr r \<Rightarrow> transpose12_shape r)"

text \<open>
  \<^verbatim>\<open>Attention.forward\<close>.  \<^verbatim>\<open>b, n, _, h = *x.shape, self.heads\<close> needs three axes,
  and \<^verbatim>\<open>q, k, v = ...\<close> needs exactly three chunks (\<open>ValueError\<close> otherwise).
\<close>

definition Attention_forward_shape :: "'p Attention \<Rightarrow> shape \<Rightarrow> error + shape" where
  "Attention_forward_shape a x =
     (case x of
        [b, n, _] \<Rightarrow>
          (case Linear_shape (to_qkv a) x of Inl e \<Rightarrow> Inl e | Inr qkv \<Rightarrow>
           case map (\<lambda>c. butlast qkv @ [c]) (chunk3_sizes (last qkv)) of
             [tq, tk, tv] \<Rightarrow>
               (case split_heads_shape b n (attn_heads a) tq of Inl e \<Rightarrow> Inl e | Inr q \<Rightarrow>
                case split_heads_shape b n (attn_heads a) tk of Inl e \<Rightarrow> Inl e | Inr k \<Rightarrow>
                case split_heads_shape b n (attn_heads a) tv of Inl e \<Rightarrow> Inl e | Inr v \<Rightarrow>
                case einsum_qk_shape q k of Inl e \<Rightarrow> Inl e | Inr dots \<Rightarrow>
                case einsum_av_shape dots v of Inl e \<Rightarrow> Inl e | Inr out \<Rightarrow>
                case transpose12_shape out of Inl e \<Rightarrow> Inl e | Inr out_t \<Rightarrow>
                case reshape_infer_shape out_t [b, n] of Inl e \<Rightarrow> Inl e | Inr out_r \<Rightarrow>
                Linear_shape (to_out0 a) out_r)
           | _ \<Rightarrow> Inl ValueError)
      | _ \<Rightarrow> Inl ValueError)"

primrec sublayer_forward_shape :: "'p sublayer \<Rightarrow> shape \<Rightarrow> error + shape" where
  "sublayer_forward_shape (AttentionFn a) x = Attention_forward_shape a x"
| "sublayer_forward_shape (FeedForwardFn f) x = FeedForward_forward_shape f x"

text \<open>\<^verbatim>\<open>PreNorm.forward\<close>: \<^verbatim>\<open>self.fn(self.norm(x))\<close>.\<close>

definition PreNorm_forward_shape :: "'p PreNorm \<Rightarrow> shape \<Rightarrow> error + shape" where
  "PreNorm_forward_shape pn x =
     (case LayerNorm_shape (norm pn) x of Inl e \<Rightarrow> Inl e
      | Inr y \<Rightarrow> sublayer_forward_shape (fn pn) y)"

text \<open>
  \<^verbatim>\<open>Transformer.forward\<close>: for each pair, \<^verbatim>\<open>x = attn(x) + x\<close> and then
  \<^verbatim>\<open>x = ff(x) + x\<close>.
\<close>

fun layers_forward_shape :: "('p PreNorm \<times> 'p PreNorm) list \<Rightarrow> shape \<Rightarrow> error + shape" where
  "layers_forward_shape [] x = Inr x"
| "layers_forward_shape ((attn, ff) # ls) x =
     (case PreNorm_forward_shape attn x of Inl e \<Rightarrow> Inl e | Inr a \<Rightarrow>
      case add_shape a x of Inl e \<Rightarrow> Inl e | Inr x1 \<Rightarrow>
      case PreNorm_forward_shape ff x1 of Inl e \<Rightarrow> Inl e | Inr f \<Rightarrow>
      case add_shape f x1 of Inl e \<Rightarrow> Inl e | Inr x2 \<Rightarrow>
      layers_forward_shape ls x2)"

definition Transformer_forward_shape :: "'p Transformer \<Rightarrow> shape \<Rightarrow> error + shape" where
  "Transformer_forward_shape t x = layers_forward_shape (layers t) x"

text \<open>
  The patch-embedding stage of \<^verbatim>\<open>ViT.forward\<close>:
  \<^verbatim>\<open>x = self.to_patch_embedding(img); x = x.flatten(2); x = x.transpose(1, 2)\<close>.
\<close>

definition patch_embedding_shape :: "'p ViT \<Rightarrow> nat \<Rightarrow> nat \<Rightarrow> nat \<Rightarrow> nat \<Rightarrow> error + shape" where
  "patch_embedding_shape m b c h w =
     (case Conv2d_shape (to_patch_embedding m) b c h w of Inl e \<Rightarrow> Inl e | Inr x \<Rightarrow>
      case flatten2_shape x of Inl e \<Rightarrow> Inl e | Inr x \<Rightarrow>
      transpose12_shape x)"

text \<open>
  The token sequence that enters the transformer: the class token is expanded over the
  batch and put in front (\<^verbatim>\<open>torch.cat\<close>), then \<^verbatim>\<open>x += self.pos_embedding\<close>, then
  the embedding dropout.
\<close>

definition token_sequence_shape :: "'p ViT \<Rightarrow> nat \<Rightarrow> nat \<Rightarrow> nat \<Rightarrow> nat \<Rightarrow> error + shape" where
  "token_sequence_shape m b c h w =
     (case patch_embedding_shape m b c h w of Inl e \<Rightarrow> Inl e | Inr x \<Rightarrow>
      case expand0_shape b (shape (cls_token m)) of Inl e \<Rightarrow> Inl e | Inr cls_tokens \<Rightarrow>
      case cat1_shape cls_tokens x of Inl e \<Rightarrow> Inl e | Inr x \<Rightarrow>
      iadd_shape x (shape (pos_embedding m)))"

text \<open>
  \<^verbatim>\<open>ViT.forward\<close> on an image batch of shape \<open>[b, c, h, w]\<close>: the token sequence, the
  transformer, \<^verbatim>\<open>x[:, 0]\<close> and the head \<open>Sequential(LayerNorm, Linear)\<close>.
\<close>

definition ViT_forward_shape :: "'p ViT \<Rightarrow> nat \<Rightarrow> nat \<Rightarrow> nat \<Rightarrow> nat \<Rightarrow> error + shape" where
  "ViT_forward_shape m b c h w =
     (case token_sequence_shape m b c h w of Inl e \<Rightarrow> Inl e | Inr x \<Rightarrow>
      case Transformer_forward_shape (transformer m) x of Inl e \<Rightarrow> Inl e | Inr x \<Rightarrow>
      case select_first_shape x of Inl e \<Rightarrow> Inl e | Inr x \<Rightarrow>
      case LayerNorm_shape (mlp_head0 m) x of Inl e \<Rightarrow> Inl e | Inr x \<Rightarrow>
      Linear_shape (mlp_head1 m) x)"

text \<open>
  \<^verbatim>\<open>model = ViT(...)\<close> followed by \<^verbatim>\<open>model(inputs)\<close>: the shape of the logits, or the
  first error.
\<close>

definition construct_and_forward :: "config \<Rightarrow> nat \<Rightarrow> nat \<Rightarrow> nat \<Rightarrow> nat \<Rightarrow> error + shape" where
  "construct_and_forward cfg b c h w =
     (case ViT_init cfg 0 of Inl e \<Rightarrow> Inl e
      | Inr (m, _) \<Rightarrow> ViT_forward_shape m b c h w)"

section \<open>The forward pass on values\<close>

text \<open>
  Activations are nested lists of reals (floating-point rounding is not modelled): a
  token sequence batch \<open>[B][T][D]\<close> is a \<open>real list list list\<close>, an image batch
  \<open>[B][C][H][W]\<close> one level deeper.  The weights of a module are the payloads of its
  parameters, row-major.  The equations of this section describe the passes that raise
  no shape error in the previous section.
\<close>

type_synonym vec = "real list"
type_synonym mat = "real list list"
type_synonym batch = "real list list list"
type_synonym weights = "real list"

definition dot :: "vec \<Rightarrow> vec \<Rightarrow> real" where
  "dot u v = sum_list (map2 (*) u v)"

text \<open>The \<open>r\<close> rows of length \<open>c\<close> of a row-major array.\<close>

definition rows_of :: "nat \<Rightarrow> nat \<Rightarrow> 'a list \<Rightarrow> 'a list list" where
  "rows_of r c xs = map (\<lambda>i. take c (drop (i * c) xs)) [0..<r]"

text \<open>Swapping the two outer axes of a rectangular nested list.\<close>

definition transpose_mat :: "'a list list \<Rightarrow> 'a list list" where
  "transpose_mat xs =
     (case xs of [] \<Rightarrow> [] | r # _ \<Rightarrow> map (\<lambda>j. map (\<lambda>row. row ! j) xs) [0..<length r])"

text \<open>Elementwise sum of two batches of the same shape.\<close>

definition tadd :: "batch \<Rightarrow> batch \<Rightarrow> batch" where
  "tadd x y = map2 (map2 (map2 (+))) x y"

subsection \<open>Library layers\<close>

text \<open>\<^verbatim>\<open>nn.Linear\<close> on one vector: \<open>W v + b\<close>, the weight stored as \<open>[out, in]\<close>.\<close>

definition Linear_forward :: "weights Linear \<Rightarrow> vec \<Rightarrow> vec" where
  "Linear_forward l v =
     (let W = rows_of (out_features l) (in_features l) (data (lin_weight l)) in
      case lin_bias l of
        None \<Rightarrow> map (\<lambda>w. dot w v) W
      | Some b \<Rightarrow> map2 (\<lambda>w bi. dot w v + bi) W (data b))"

text \<open>
  \<^verbatim>\<open>nn.LayerNorm\<close> on one vector: centre, divide by the standard deviation (biased
  variance, \<open>eps = 1e-5\<close>), then the learned scale and shift.
\<close>

definition LayerNorm_forward :: "weights LayerNorm \<Rightarrow> vec \<Rightarrow> vec" where
  "LayerNorm_forward l v =
     (let n = real (length v);
          mean = sum_list v / n;
          var = sum_list (map (\<lambda>x. (x - mean) ^ 2) v) / n
      in map2 (\<lambda>x (w, b). (x - mean) / sqrt (var + 1 / 100000) * w + b) v
           (zip (data (ln_weight l)) (data (ln_bias l))))"

text \<open>Softmax over one row.\<close>

definition softmax :: "vec \<Rightarrow> vec" where
  "softmax v = map (\<lambda>x. exp x / sum_list (map exp v)) v"

text \<open>
  The random source of dropout: \<open>\<nu> k b t j\<close> tells whether the \<open>k\<close>-th dropout call
  of a pass that draws a mask keeps element \<open>[b, t, j]\<close>.  \<^verbatim>\<open>nn.Dropout\<close> returns
  its input unchanged in evaluation mode and when \<open>p = 0\<close>, and draws no mask then;
  otherwise it zeroes the dropped elements and divides the kept ones by \<open>1 - p\<close>.
\<close>

type_synonym noise = "nat \<Rightarrow> nat \<Rightarrow> nat \<Rightarrow> nat \<Rightarrow> bool"

definition Dropout_forward :: "bool \<Rightarrow> noise \<Rightarrow> Dropout \<Rightarrow> batch \<times> nat \<Rightarrow> batch \<times> nat" where
  "Dropout_forward training \<nu> d xk =
     (case xk of (x, k) \<Rightarrow>
        if \<not> training \<or> drop_p d = 0 then (x, k)
        else (map (\<lambda>(b, xb). map (\<lambda>(t, xt). map (\<lambda>(j, v).
                 if \<nu> k b t j then v / (1 - drop_p d) else 0)
                 (enumerate 0 xt)) (enumerate 0 xb)) (enumerate 0 x),
              k + 1))"

text \<open>
  \<^verbatim>\<open>nn.Conv2d\<close> without padding on one image \<open>[C][H][W]\<close>: output channel \<open>d\<close> at
  \<open>(i, j)\<close> is the dot product of kernel \<open>d\<close> with the window at
  \<open>(i * stride, j * stride)\<close>, plus the bias.
\<close>

definition window :: "nat \<Rightarrow> nat \<Rightarrow> real list list list \<Rightarrow> nat \<Rightarrow> nat \<Rightarrow> vec" where
  "window ks st img i j =
     concat (map (\<lambda>ch. concat (map (\<lambda>u. take ks (drop (j * st) (ch ! (i * st + u)))) [0..<ks])) img)"

definition Conv2d_forward :: "weights Conv2d \<Rightarrow> real list list list \<Rightarrow> real list list list" where
  "Conv2d_forward cv img =
     (let ks = kernel_size cv; st = stride cv;
          h = (case img of [] \<Rightarrow> 0 | ch # _ \<Rightarrow> length ch);
          w = (case img of (r # _) # _ \<Rightarrow> length r | _ \<Rightarrow> 0);
          kernels = rows_of (out_channels cv) (in_channels cv * ks * ks) (data (conv_weight cv))
      in map2 (\<lambda>kern b.
           map (\<lambda>i. map (\<lambda>j. dot kern (window ks st img i j) + b)
                  [0..<(w - ks) div st + 1])
             [0..<(h - ks) div st + 1])
           kernels (data (conv_bias cv)))"

subsection \<open>The \<^verbatim>\<open>forward\<close> methods of the script\<close>

text \<open>
  \<^verbatim>\<open>FeedForward.forward\<close>; the GELU nonlinearity is a parameter \<open>g\<close> of the model.
\<close>

definition FeedForward_forward ::
  "(real \<Rightarrow> real) \<Rightarrow> bool \<Rightarrow> noise \<Rightarrow> weights FeedForward \<Rightarrow> batch \<times> nat \<Rightarrow> batch \<times> nat" where
  "FeedForward_forward g training \<nu> f xk =
     (case xk of (x, k) \<Rightarrow>
        let x1 = map (map (Linear_forward (net0 f))) x;
            x2 = map (map (map g)) x1;
            x3k = Dropout_forward training \<nu> (net2 f) (x2, k);
            x4 = map (map (Linear_forward (net3 f))) (fst x3k)
        in Dropout_forward training \<nu> (net4 f) (x4, snd x3k))"

text \<open>Piece \<open>i\<close> of \<^verbatim>\<open>t.chunk(3, dim=-1)\<close>, on one vector.\<close>

definition chunk3_piece :: "nat \<Rightarrow> vec \<Rightarrow> vec" where
  "chunk3_piece i v = (let cs = (length v + 2) div 3 in take cs (drop (i * cs) v))"

text \<open>
  \<^verbatim>\<open>t.reshape(b, n, h, -1).transpose(1, 2)\<close> on one batch element: each token is cut
  into \<open>h\<close> pieces, and the result is indexed by head first: \<open>[h][n][d]\<close>.
\<close>

definition split_heads :: "nat \<Rightarrow> mat \<Rightarrow> batch" where
  "split_heads h t =
     map (\<lambda>j. map (\<lambda>tok. rows_of h (length tok div h) tok ! j) t) [0..<h]"

text \<open>
  \<^verbatim>\<open>attn = (einsum('bhid,bhjd->bhij', q, k) * self.scale).softmax(dim=-1)\<close>, for one
  batch element and one head: one row per query, one entry per key.
\<close>

definition attention_rows :: "real \<Rightarrow> mat \<Rightarrow> mat \<Rightarrow> mat" where
  "attention_rows sc qh kh = map (\<lambda>qi. softmax (map (\<lambda>kj. dot qi kj * sc) kh)) qh"

text \<open>The attention probabilities \<open>[B][h][n][n]\<close> of \<^verbatim>\<open>Attention.forward\<close>.\<close>

definition Attention_probs :: "weights Attention \<Rightarrow> batch \<Rightarrow> real list list list list" where
  "Attention_probs a x =
     map (\<lambda>xb.
       let qkv = map (Linear_forward (to_qkv a)) xb;
           q = split_heads (attn_heads a) (map (chunk3_piece 0) qkv);
           k = split_heads (attn_heads a) (map (chunk3_piece 1) qkv)
       in map2 (attention_rows (scale a)) q k) x"

text \<open>
  \<^verbatim>\<open>Attention.forward\<close>: the probabilities weigh the values
  (\<^verbatim>\<open>einsum('bhij,bhjd->bhid', attn, v)\<close>), the heads are put side by side again
  (\<^verbatim>\<open>out.transpose(1, 2).reshape(b, n, -1)\<close>), then \<open>to_out\<close>.
\<close>

definition Attention_forward ::
  "bool \<Rightarrow> noise \<Rightarrow> weights Attention \<Rightarrow> batch \<times> nat \<Rightarrow> batch \<times> nat" where
  "Attention_forward training \<nu> a xk =
     (case xk of (x, k) \<Rightarrow>
        let v = map (\<lambda>xb. split_heads (attn_heads a)
                  (map (\<lambda>tok. chunk3_piece 2 (Linear_forward (to_qkv a) tok)) xb)) x;
            out = map2 (map2 (\<lambda>ah vh. map (\<lambda>row. map (dot row) (transpose_mat vh)) ah))
                    (Attention_probs a x) v;
            out_r = map (\<lambda>ob. map concat (transpose_mat ob)) out
        in Dropout_forward training \<nu> (to_out1 a)
             (map (map (Linear_forward (to_out0 a))) out_r, k))"

primrec sublayer_forward ::
  "(real \<Rightarrow> real) \<Rightarrow> bool \<Rightarrow> noise \<Rightarrow> weights sublayer \<Rightarrow> batch \<times> nat \<Rightarrow> batch \<times> nat" where
  "sublayer_forward g training \<nu> (AttentionFn a) xk = Attention_forward training \<nu> a xk"
| "sublayer_forward g training \<nu> (FeedForwardFn f) xk = FeedForward_forward g training \<nu> f xk"

text \<open>\<^verbatim>\<open>PreNorm.forward\<close>: \<^verbatim>\<open>self.fn(self.norm(x))\<close>.\<close>

definition PreNorm_forward ::
  "(real \<Rightarrow> real) \<Rightarrow> bool \<Rightarrow> noise \<Rightarrow> weights PreNorm \<Rightarrow> batch \<times> nat \<Rightarrow> batch \<times> nat" where
  "PreNorm_forward g training \<nu> pn xk =
     sublayer_forward g training \<nu> (fn pn)
       (map (map (LayerNorm_forward (norm pn))) (fst xk), snd xk)"

text \<open>
  \<^verbatim>\<open>Transformer.forward\<close>: per pair, \<^verbatim>\<open>x = attn(x) + x\<close> then \<^verbatim>\<open>x = ff(x) + x\<close>.
\<close>

fun layers_forward ::
  "(real \<Rightarrow> real) \<Rightarrow> bool \<Rightarrow> noise \<Rightarrow> (weights PreNorm \<times> weights PreNorm) list
     \<Rightarrow> batch \<times> nat \<Rightarrow> batch \<times> nat" where
  "layers_forward g training \<nu> [] xk = xk"
| "layers_forward g training \<nu> ((attn, ff) # ls) xk =
     (let ak = PreNorm_forward g training \<nu> attn xk;
          x1 = tadd (fst ak) (fst xk);
          fk = PreNorm_forward g training \<nu> ff (x1, snd ak);
          x2 = tadd (fst fk) x1
      in layers_forward g training \<nu> ls (x2, snd fk))"

definition Transformer_forward ::
  "(real \<Rightarrow> real) \<Rightarrow> bool \<Rightarrow> noise \<Rightarrow> weights Transformer \<Rightarrow> batch \<times> nat \<Rightarrow> batch \<times> nat" where
  "Transformer_forward g training \<nu> t xk = layers_forward g training \<nu> (layers t) xk"

text \<open>
  \<^verbatim>\<open>x += self.pos_embedding\<close> on one batch element: the rows of the positional
  embedding \<open>[1, N + 1, D]\<close> are added token by token (a single row is broadcast).
\<close>

definition add_pos_embedding :: "weights Parameter \<Rightarrow> mat \<Rightarrow> mat" where
  "add_pos_embedding pos xb =
     (let rows = rows_of (shape pos ! 1) (shape pos ! 2) (data pos) in
      case rows of
        [r] \<Rightarrow> map (\<lambda>tok. map2 (+) tok r) xb
      | _ \<Rightarrow> map2 (map2 (+)) xb rows)"

text \<open>
  \<^verbatim>\<open>ViT.forward\<close> on an image batch: patch embedding, \<^verbatim>\<open>flatten(2)\<close>,
  \<^verbatim>\<open>transpose(1, 2)\<close>, the class token in front, the positional embedding, dropout, the
  transformer, token 0, and the head.  The result is the logits \<open>[B][num_classes]\<close>.
\<close>

definition ViT_forward ::
  "(real \<Rightarrow> real) \<Rightarrow> bool \<Rightarrow> noise \<Rightarrow> weights ViT \<Rightarrow> real list list list list \<Rightarrow> mat" where
  "ViT_forward g training \<nu> m img =
     (let x = map (Conv2d_forward (to_patch_embedding m)) img;
          x = map (map concat) x;
          x = map transpose_mat x;
          x = map (\<lambda>xb. data (cls_token m) # xb) x;
          x = map (add_pos_embedding (pos_embedding m)) x;
          xk = Dropout_forward training \<nu> (vit_dropout m) (x, 0);
          xk = Transformer_forward g training \<nu> (transformer m) xk;
          x = map (\<lambda>xb. xb ! 0) (fst xk)
      in map (\<lambda>v. Linear_forward (mlp_head1 m) (LayerNorm_forward (mlp_head0 m) v)) x)"

section \<open>The training loop\<close>

subsection \<open>The gradient scaler\<close>

text \<open>
  \<^verbatim>\<open>GradScaler\<close> is imported from the tensor library; the script only calls
  \<^verbatim>\<open>scaler.scale(loss)\<close>, \<^verbatim>\<open>scaler.step(optimizer)\<close> and \<^verbatim>\<open>scaler.update()\<close>.
  The scaler of this section is the one the spec describes, in its enabled state, with
  real numbers for the loss scale.
\<close>

text \<open>
  Modelled from the spec: a gradient entry, which the overflow check of the scaler
  (missing from the source) inspects: a number, or a non-finite value (an infinity or a
  NaN).
\<close>

datatype gval = Finite real | NonFinite

text \<open>
  Modelled from the spec: the loss-scale state of \<^verbatim>\<open>GradScaler\<close>, missing from the
  source: a single scalar multiplier and a consecutive-success counter.
\<close>

record GradScaler =
  loss_scale :: real
  growth_tracker :: nat

text \<open>
  Modelled from the spec: the initial state of \<^verbatim>\<open>GradScaler()\<close>, which the source
  imports and does not define.  The initial loss scale is \<open>2^16\<close> and the
  consecutive-success counter starts at 0.
\<close>

definition GradScaler_init :: GradScaler where
  "GradScaler_init = \<lparr> loss_scale = 65536, growth_tracker = 0 \<rparr>"

text \<open>
  Modelled from the spec: the threshold of \<^verbatim>\<open>GradScaler\<close>, missing from the source:
  2000 consecutive successful steps.
\<close>

definition growth_interval :: nat where
  "growth_interval = 2000"

text \<open>
  Modelled from the spec: the unscaling of \<^verbatim>\<open>scaler.step\<close>, missing from the source.
  A gradient is divided by the loss-scale factor; a non-finite one stays non-finite.
\<close>

primrec unscale :: "real \<Rightarrow> gval \<Rightarrow> gval" where
  "unscale s (Finite v) = Finite (v / s)"
| "unscale s NonFinite = NonFinite"

text \<open>
  Modelled from the spec: the overflow check of \<^verbatim>\<open>scaler.step\<close>, missing from the
  source.  The check fails when some unscaled gradient is not finite.
\<close>

definition found_inf :: "gval list \<Rightarrow> bool" where
  "found_inf gs = (NonFinite \<in> set gs)"

text \<open>
  Modelled from the spec: the number an unscaled gradient holds when the optimizer reads
  it (the optimizer, missing from the source, is only called when all of them are
  finite).
\<close>

primrec gval_value :: "gval \<Rightarrow> real" where
  "gval_value (Finite v) = v"
| "gval_value NonFinite = 0"

text \<open>
  Modelled from the spec: \<^verbatim>\<open>scaler.step(optimizer)\<close>, missing from the source.  On a
  failed overflow check the step is discarded and the parameters are not updated;
  otherwise the optimizer update \<open>opt\<close> is applied with the unscaled gradients.  The
  result is the new model state and whether the check failed.
\<close>

definition GradScaler_step ::
  "GradScaler \<Rightarrow> (real list \<Rightarrow> 's \<Rightarrow> 's) \<Rightarrow> gval list \<Rightarrow> 's \<Rightarrow> 's \<times> bool" where
  "GradScaler_step gs opt grads st =
     (let unscaled = map (unscale (loss_scale gs)) grads in
      if found_inf unscaled then (st, True)
      else (opt (map gval_value unscaled) st, False))"

text \<open>
  Modelled from the spec: \<^verbatim>\<open>scaler.update()\<close>, missing from the source.  After a
  failed check the loss scale is halved and the counter reset to 0; after a successful
  step the counter is incremented, and when it reaches the threshold the loss scale is
  doubled and the counter reset.
\<close>

definition GradScaler_update :: "GradScaler \<Rightarrow> bool \<Rightarrow> GradScaler" where
  "GradScaler_update gs overflow =
     (if overflow then \<lparr> loss_scale = loss_scale gs / 2, growth_tracker = 0 \<rparr>
      else if growth_tracker gs + 1 = growth_interval
        then \<lparr> loss_scale = loss_scale gs * 2, growth_tracker = 0 \<rparr>
      else gs \<lparr> growth_tracker := growth_tracker gs + 1 \<rparr>)"

subsection \<open>One training step\<close>

text \<open>
  What the loop body needs of the model, the loss and the optimizer, as parameters:
  \<open>forward_loss\<close> is \<^verbatim>\<open>outputs = model(inputs); loss = criterion(outputs, labels)\<close>
  and returns the loss, the number of correct predictions of the batch and the batch
  size; \<open>backward st b s\<close> are the gradients that \<^verbatim>\<open>.backward()\<close> leaves when the
  loss was multiplied by \<open>s\<close> first (\<^verbatim>\<open>scaler.scale(loss)\<close> multiplies it by the
  current loss-scale factor);
  \<open>opt_step\<close> is the optimizer update.  The type \<open>'s\<close> is the state of the model and
  the optimizer, \<open>'b\<close> a batch.
\<close>

record ('s, 'b) ops =
  forward_loss :: "'s \<Rightarrow> 'b \<Rightarrow> real \<times> nat \<times> nat"
  backward :: "'s \<Rightarrow> 'b \<Rightarrow> real \<Rightarrow> gval list"
  opt_step :: "real list \<Rightarrow> 's \<Rightarrow> 's"

text \<open>Whether the step on batch \<open>b\<close> from state \<open>(st, gs)\<close> overflows.\<close>

definition step_overflows :: "('s, 'b) ops \<Rightarrow> 's \<times> GradScaler \<Rightarrow> 'b \<Rightarrow> bool" where
  "step_overflows env sg b =
     found_inf (map (unscale (loss_scale (snd sg)))
       (backward env (fst sg) b (loss_scale (snd sg))))"

text \<open>
  \<^verbatim>\<open>scaler.scale(loss).backward(); scaler.step(optimizer); scaler.update()\<close> with the
  scaler \<open>gs\<close>: the new model state and the new scaler.
\<close>

definition scaled_step :: "('s, 'b) ops \<Rightarrow> 's \<times> GradScaler \<Rightarrow> 'b \<Rightarrow> 's \<times> GradScaler" where
  "scaled_step env sg b =
     (case sg of (st, gs) \<Rightarrow>
        let grads = backward env st b (loss_scale gs);
            r = GradScaler_step gs (opt_step env) grads st
        in (fst r, GradScaler_update gs (snd r)))"

subsection \<open>The script\<close>

text \<open>
  The global names the training functions read when they are called: the model with
  its optimizer, and \<open>scaler\<close>, which is bound (\<open>Some\<close>) only once
  \<^verbatim>\<open>scaler = GradScaler()\<close> has run.
\<close>

record 's globals =
  g_model :: 's
  g_scaler :: "GradScaler option"
  g_EPOCHS :: nat

text \<open>The local variables of \<^verbatim>\<open>train_one_epoch\<close> and \<^verbatim>\<open>evaluate\<close>.\<close>

record locals =
  running_loss :: real
  correct :: nat
  total :: nat

definition locals_init :: locals where
  "locals_init = \<lparr> running_loss = 0, correct = 0, total = 0 \<rparr>"

text \<open>
  A raise inside the script: the exception, the globals and the loop's local variables
  at that point.
\<close>

type_synonym 's raised = "error \<times> 's globals \<times> locals"

text \<open>
  The body of the loop of \<^verbatim>\<open>train_one_epoch\<close>: the forward pass and the loss, then
  the three statements that read the global \<open>scaler\<close>, then the metrics.
\<close>

definition train_step ::
  "('s, 'b) ops \<Rightarrow> 's globals \<times> locals \<Rightarrow> 'b \<Rightarrow> 's raised + ('s globals \<times> locals)" where
  "train_step env gl b =
     (case gl of (g, l) \<Rightarrow>
        case forward_loss env (g_model g) b of (loss, c, n) \<Rightarrow>
        case g_scaler g of
          None \<Rightarrow> Inl (NameError ''scaler'', g, l)
        | Some gs \<Rightarrow>
            (case scaled_step env (g_model g, gs) b of (st', gs') \<Rightarrow>
               Inr (g \<lparr> g_model := st', g_scaler := Some gs' \<rparr>,
                    \<lparr> running_loss = running_loss l + loss,
                      correct = correct l + c,
                      total = total l + n \<rparr>)))"

fun train_batches ::
  "('s, 'b) ops \<Rightarrow> 's globals \<times> locals \<Rightarrow> 'b list \<Rightarrow> 's raised + ('s globals \<times> locals)" where
  "train_batches env gl [] = Inr gl"
| "train_batches env gl (b # bs) =
     (case train_step env gl b of Inl r \<Rightarrow> Inl r | Inr gl' \<Rightarrow> train_batches env gl' bs)"

text \<open>
  \<^verbatim>\<open>train_one_epoch\<close>: the loop over the loader, then
  \<^verbatim>\<open>return running_loss / len(trainloader), 100. * correct / total\<close>.
\<close>

definition train_one_epoch ::
  "('s, 'b) ops \<Rightarrow> 's globals \<Rightarrow> 'b list \<Rightarrow> 's raised + ('s globals \<times> real \<times> real)" where
  "train_one_epoch env g trainloader =
     (case train_batches env (g, locals_init) trainloader of Inl r \<Rightarrow> Inl r
      | Inr (g', l) \<Rightarrow>
          if length trainloader = 0 \<or> total l = 0 then Inl (ZeroDivisionError, g', l)
          else Inr (g', running_loss l / real (length trainloader),
                    100 * real (correct l) / real (total l)))"

text \<open>\<^verbatim>\<open>evaluate\<close>: forward passes only; neither the model nor the scaler is touched.\<close>

definition eval_step :: "('s, 'b) ops \<Rightarrow> 's \<Rightarrow> locals \<Rightarrow> 'b \<Rightarrow> locals" where
  "eval_step env st l b =
     (case forward_loss env st b of (loss, c, n) \<Rightarrow>
        \<lparr> running_loss = running_loss l + loss, correct = correct l + c, total = total l + n \<rparr>)"

definition evaluate ::
  "('s, 'b) ops \<Rightarrow> 's globals \<Rightarrow> 'b list \<Rightarrow> 's raised + (real \<times> real)" where
  "evaluate env g testloader =
     (let l = foldl (eval_step env (g_model g)) locals_init testloader in
      if length testloader = 0 \<or> total l = 0 then Inl (ZeroDivisionError, g, l)
      else Inr (running_loss l / real (length testloader),
                100 * real (correct l) / real (total l)))"

text \<open>
  \<^verbatim>\<open>for epoch in range(EPOCHS): train_one_epoch(epoch); evaluate(epoch); print(...)\<close>,
  with \<open>n\<close> epochs left.
\<close>

fun epochs ::
  "('s, 'b) ops \<Rightarrow> nat \<Rightarrow> 's globals \<Rightarrow> 'b list \<Rightarrow> 'b list \<Rightarrow> 's raised + 's globals" where
  "epochs env 0 g trainloader testloader = Inr g"
| "epochs env (Suc n) g trainloader testloader =
     (case train_one_epoch env g trainloader of Inl r \<Rightarrow> Inl r | Inr (g', _) \<Rightarrow>
      case evaluate env g' testloader of Inl r \<Rightarrow> Inl r | Inr _ \<Rightarrow>
      epochs env n g' trainloader testloader)"

text \<open>
  The globals when the from-scratch loop starts: \<open>EPOCHS = 10\<close>, the model \<open>st\<close> built
  from \<open>ViT(...)\<close> with its optimizer, and no binding of \<open>scaler\<close> (the only assignment
  to that name is in the fine-tuning section, further down the file).
\<close>

definition globals_from_scratch :: "'s \<Rightarrow> 's globals" where
  "globals_from_scratch st = \<lparr> g_model = st, g_scaler = None, g_EPOCHS = 10 \<rparr>"

text \<open>The from-scratch section: the training loop on the globals above.\<close>

definition from_scratch_section ::
  "('s, 'b) ops \<Rightarrow> 's \<Rightarrow> 'b list \<Rightarrow> 'b list \<Rightarrow> 's raised + 's globals" where
  "from_scratch_section env st trainloader testloader =
     epochs env (g_EPOCHS (globals_from_scratch st)) (globals_from_scratch st)
       trainloader testloader"

text \<open>
  The script, top to bottom: the from-scratch section, and after it the fine-tuning
  section, which sets \<open>EPOCHS = 5\<close>, binds \<open>scaler = GradScaler()\<close>, replaces the model
  by the pretrained one \<open>st2\<close> and runs its own loop on its own loaders.
\<close>

definition script ::
  "('s, 'b) ops \<Rightarrow> 's \<Rightarrow> 'b list \<Rightarrow> 'b list \<Rightarrow> 's \<Rightarrow> 'b list \<Rightarrow> 'b list
     \<Rightarrow> 's raised + 's globals" where
  "script env st trainloader testloader st2 trainloader2 testloader2 =
     (case from_scratch_section env st trainloader testloader of Inl r \<Rightarrow> Inl r
      | Inr g \<Rightarrow>
          epochs env 5 (g \<lparr> g_EPOCHS := 5, g_scaler := Some GradScaler_init, g_model := st2 \<rparr>)
            trainloader2 testloader2)"

subsection \<open>A run of training steps\<close>

text \<open>
  The state \<open>(model, scaler)\<close> after the first \<open>i\<close> batches of \<open>bs\<close>, and whether
  step \<open>i\<close> (the step on batch \<open>bs ! i\<close>) overflows.
\<close>

definition state_after ::
  "('s, 'b) ops \<Rightarrow> 's \<times> GradScaler \<Rightarrow> 'b list \<Rightarrow> nat \<Rightarrow> 's \<times> GradScaler" where
  "state_after env sg bs i = foldl (scaled_step env) sg (take i bs)"

definition overflow_at ::
  "('s, 'b) ops \<Rightarrow> 's \<times> GradScaler \<Rightarrow> 'b list \<Rightarrow> nat \<Rightarrow> bool" where
  "overflow_at env sg bs i = step_overflows env (state_after env sg bs i) (bs ! i)"

section \<open>What a constructed layer looks like\<close>

text \<open>
  The hyper-parameters of a pair built by one round of the loop of
  \<^verbatim>\<open>Transformer.__init__(dim, depth, heads, mlp_dim, dropout)\<close>, whatever its
  parameters hold: the first module is a \<open>PreNorm\<close> around an \<open>Attention\<close>, the second a
  \<open>PreNorm\<close> around a \<open>FeedForward\<close>.
\<close>

definition attention_wf :: "nat \<Rightarrow> nat \<Rightarrow> real \<Rightarrow> 'p Attention \<Rightarrow> bool" where
  "attention_wf d h p a =
     (attn_heads a = h \<and> scale a = real (d div h) powr (- 0.5)
      \<and> in_features (to_qkv a) = d \<and> out_features (to_qkv a) = d * 3
      \<and> in_features (to_out0 a) = d \<and> out_features (to_out0 a) = d
      \<and> drop_p (to_out1 a) = p)"

definition feedforward_wf :: "nat \<Rightarrow> nat \<Rightarrow> real \<Rightarrow> 'p FeedForward \<Rightarrow> bool" where
  "feedforward_wf d mlp_d p f =
     (in_features (net0 f) = d \<and> out_features (net0 f) = mlp_d
      \<and> in_features (net3 f) = mlp_d \<and> out_features (net3 f) = d
      \<and> drop_p (net2 f) = p \<and> drop_p (net4 f) = p)"

definition layer_wf ::
  "nat \<Rightarrow> nat \<Rightarrow> nat \<Rightarrow> real \<Rightarrow> 'p PreNorm \<times> 'p PreNorm \<Rightarrow> bool" where
  "layer_wf d h mlp_d p l =
     (normalized_shape (norm (fst l)) = d \<and> normalized_shape (norm (snd l)) = d
      \<and> (\<exists>a. fn (fst l) = AttentionFn a \<and> attention_wf d h p a)
      \<and> (\<exists>f. fn (snd l) = FeedForwardFn f \<and> feedforward_wf d mlp_d p f))"

text \<open>
  The invariant of a run: the loss scale is positive, and the counter is the number of
  steps since the last overflow or growth, all of them without overflow.
\<close>

definition run_inv :: "('s, 'b) ops \<Rightarrow> 's \<times> GradScaler \<Rightarrow> 'b list \<Rightarrow> nat \<Rightarrow> bool" where
  "run_inv env sg bs i =
     (let gs = snd (state_after env sg bs i) in
      0 < loss_scale gs \<and> growth_tracker gs < growth_interval \<and> growth_tracker gs \<le> i
      \<and> (\<forall>j. i - growth_tracker gs \<le> j \<and> j < i \<longrightarrow> \<not> overflow_at env sg bs j)
      \<and> growth_tracker (snd (state_after env sg bs (i - growth_tracker gs))) = 0)"

text \<open>
  An environment for concrete runs: the model state counts the optimizer updates, and
  the batch \<open>True\<close> is a corrupted batch, whose gradient is not finite.
\<close>

definition demo_ops :: "(nat, bool) ops" where
  "demo_ops = \<lparr> forward_loss = (\<lambda>st b. (0, 0, 1)),
     backward = (\<lambda>st b s. [if b then NonFinite else Finite s]),
     opt_step = (\<lambda>g st. st + 1) \<rparr>"

section \<open>The block as the spec words it\<close>

text \<open>
  The pre-norm residual block in the words of the spec:
  \<open>x1 = x + SelfAttention(LayerNorm(x))\<close>, then \<open>x2 = x1 + FeedForward(LayerNorm(x1))\<close>,
  for the layer norms \<open>n1\<close>, \<open>n2\<close>, the attention \<open>a\<close> and the feed-forward \<open>f\<close>
  of the block.  The second component counts the dropout masks drawn so far.
\<close>

definition prenorm_block_spec ::
  "(real \<Rightarrow> real) \<Rightarrow> bool \<Rightarrow> noise \<Rightarrow> weights LayerNorm \<Rightarrow> weights Attention
     \<Rightarrow> weights LayerNorm \<Rightarrow> weights FeedForward \<Rightarrow> batch \<times> nat \<Rightarrow> batch \<times> nat" where
  "prenorm_block_spec g training \<nu> n1 a n2 f xk =
     (let x = fst xk;
          sa = Attention_forward training \<nu> a (map (map (LayerNorm_forward n1)) x, snd xk);
          x1 = tadd x (fst sa);
          ff = FeedForward_forward g training \<nu> f (map (map (LayerNorm_forward n2)) x1, snd sa);
          x2 = tadd x1 (fst ff)
      in (x2, snd ff))"

text \<open>
  The identities of the layer-norm parameters (scale and shift) of the blocks of a
  transformer, block by block.
\<close>

definition PreNorm_norm_ids :: "nat PreNorm \<Rightarrow> nat list" where
  "PreNorm_norm_ids pn = [data (ln_weight (norm pn)), data (ln_bias (norm pn))]"

definition layer_norm_ids :: "nat Transformer \<Rightarrow> nat list" where
  "layer_norm_ids t =
     concat (map (\<lambda>l. PreNorm_norm_ids (fst l) @ PreNorm_norm_ids (snd l)) (layers t))"

text \<open>A one-head attention on one-dimensional tokens, for concrete evaluations.\<close>

definition demo_attention :: "weights Attention" where
  "demo_attention =
     Attention 1 1 (Linear 1 3 (Parameter [3, 1] [1, 1, 1]) None)
       (Linear 1 1 (Parameter [1, 1] [1]) (Some (Parameter [1] [0]))) (Dropout 0)"

section \<open>Checkpoints\<close>

text \<open>
  Modelled from the spec: the parameter names of the checkpoint interface, which the
  library computes (missing from the source).  A name is the path of attribute names and
  container indices from the root module to the parameter (the library prints it with
  dots: \<^verbatim>\<open>transformer.layers.3.0.norm.weight\<close>).
\<close>

datatype key = Attr string | Idx nat

type_synonym pname = "key list"

text \<open>
  Modelled from the spec: the names of the parameters of a sub-module, under the path
  \<open>pre\<close> of the attribute that holds it.
\<close>

definition prefixed :: "pname \<Rightarrow> (pname \<times> 'a) list \<Rightarrow> (pname \<times> 'a) list" where
  "prefixed pre nps = map (\<lambda>np. (pre @ fst np, snd np)) nps"

text \<open>
  Modelled from the spec: the named parameters of each module (the library's
  \<^verbatim>\<open>named_parameters\<close>, missing from the source), in registration order: a module's
  own parameters, then those of its sub-modules under the name of the attribute
  (\<^verbatim>\<open>nn.Sequential\<close> and \<^verbatim>\<open>nn.ModuleList\<close> name their members by index; dropout, GELU
  and the identity have no parameters).  The attribute names are those the constructors
  of the script assign.
\<close>

definition LayerNorm_named :: "'p LayerNorm \<Rightarrow> (pname \<times> 'p Parameter) list" where
  "LayerNorm_named l = [([Attr ''weight''], ln_weight l), ([Attr ''bias''], ln_bias l)]"

text \<open>Modelled from the spec: the named parameters of \<^verbatim>\<open>nn.Linear\<close>: \<open>weight\<close>, and \<open>bias\<close> when it has one.\<close>

definition Linear_named :: "'p Linear \<Rightarrow> (pname \<times> 'p Parameter) list" where
  "Linear_named l =
     ([Attr ''weight''], lin_weight l)
       # (case lin_bias l of None \<Rightarrow> [] | Some b \<Rightarrow> [([Attr ''bias''], b)])"

text \<open>Modelled from the spec: the named parameters of \<^verbatim>\<open>nn.Conv2d\<close>: \<open>weight\<close> and \<open>bias\<close>.\<close>

definition Conv2d_named :: "'p Conv2d \<Rightarrow> (pname \<times> 'p Parameter) list" where
  "Conv2d_named cv = [([Attr ''weight''], conv_weight cv), ([Attr ''bias''], conv_bias cv)]"

text \<open>Modelled from the spec: the named parameters of \<^verbatim>\<open>FeedForward\<close>: \<open>net.0\<close> and \<open>net.3\<close>.\<close>

definition FeedForward_named :: "'p FeedForward \<Rightarrow> (pname \<times> 'p Parameter) list" where
  "FeedForward_named f =
     prefixed [Attr ''net'', Idx 0] (Linear_named (net0 f))
       @ prefixed [Attr ''net'', Idx 3] (Linear_named (net3 f))"

text \<open>Modelled from the spec: the named parameters of \<^verbatim>\<open>Attention\<close>: \<open>to_qkv\<close> and \<open>to_out.0\<close>.\<close>

definition Attention_named :: "'p Attention \<Rightarrow> (pname \<times> 'p Parameter) list" where
  "Attention_named a =
     prefixed [Attr ''to_qkv''] (Linear_named (to_qkv a))
       @ prefixed [Attr ''to_out'', Idx 0] (Linear_named (to_out0 a))"

text \<open>Modelled from the spec: the named parameters of what a \<open>PreNorm\<close> wraps.\<close>

primrec sublayer_named :: "'p sublayer \<Rightarrow> (pname \<times> 'p Parameter) list" where
  "sublayer_named (AttentionFn a) = Attention_named a"
| "sublayer_named (FeedForwardFn f) = FeedForward_named f"

text \<open>Modelled from the spec: the named parameters of \<^verbatim>\<open>PreNorm\<close>: \<open>norm\<close>, then \<open>fn\<close>.\<close>

definition PreNorm_named :: "'p PreNorm \<Rightarrow> (pname \<times> 'p Parameter) list" where
  "PreNorm_named pn =
     prefixed [Attr ''norm''] (LayerNorm_named (norm pn))
       @ prefixed [Attr ''fn''] (sublayer_named (fn pn))"

text \<open>
  Modelled from the spec: the named parameters of the module list \<open>layers\<close>, from
  index \<open>i\<close> on: member \<open>i\<close> is itself a list of two modules, \<open>i.0\<close> and \<open>i.1\<close>.
\<close>

fun layers_named :: "nat \<Rightarrow> ('p PreNorm \<times> 'p PreNorm) list \<Rightarrow> (pname \<times> 'p Parameter) list" where
  "layers_named i [] = []"
| "layers_named i (l # ls) =
     prefixed [Attr ''layers'', Idx i, Idx 0] (PreNorm_named (fst l))
       @ prefixed [Attr ''layers'', Idx i, Idx 1] (PreNorm_named (snd l))
       @ layers_named (Suc i) ls"

text \<open>Modelled from the spec: the named parameters of \<^verbatim>\<open>Transformer\<close>: \<open>layers\<close>.\<close>

definition Transformer_named :: "'p Transformer \<Rightarrow> (pname \<times> 'p Parameter) list" where
  "Transformer_named t = layers_named 0 (layers t)"

text \<open>Modelled from the spec: the named parameters of \<^verbatim>\<open>ViT\<close>: \<open>pos_embedding\<close>, \<open>cls_token\<close>, then \<open>to_patch_embedding.0\<close>, \<open>transformer\<close>, \<open>mlp_head.0\<close> and \<open>mlp_head.1\<close>.\<close>

definition ViT_named :: "'p ViT \<Rightarrow> (pname \<times> 'p Parameter) list" where
  "ViT_named m =
     [([Attr ''pos_embedding''], pos_embedding m), ([Attr ''cls_token''], cls_token m)]
       @ prefixed [Attr ''to_patch_embedding'', Idx 0] (Conv2d_named (to_patch_embedding m))
       @ prefixed [Attr ''transformer''] (Transformer_named (transformer m))
       @ prefixed [Attr ''mlp_head'', Idx 0] (LayerNorm_named (mlp_head0 m))
       @ prefixed [Attr ''mlp_head'', Idx 1] (Linear_named (mlp_head1 m))"

text \<open>
  Modelled from the spec: the checkpoint interface, missing from the source: a mapping
  from parameter name to tensor (shape and values), here for a model whose parameter
  objects hold the values \<open>\<theta>\<close>.  Optimizer and loss-scale state are not part of it.
\<close>

type_synonym checkpoint = "(pname \<times> shape \<times> weights) list"

text \<open>
  Modelled from the spec: \<^verbatim>\<open>model.state_dict()\<close>, missing from the source: the shape
  and the values of every named parameter.
\<close>

definition state_dict :: "nat ViT \<Rightarrow> (nat \<Rightarrow> weights) \<Rightarrow> checkpoint" where
  "state_dict m \<theta> = map (\<lambda>np. (fst np, shape (snd np), \<theta> (data (snd np)))) (ViT_named m)"

text \<open>
  Modelled from the spec: \<^verbatim>\<open>torch.save\<close> and \<^verbatim>\<open>torch.load\<close>, missing from the source
  (file input and output is an external collaborator): what is loaded from the file is
  the mapping that was saved.
\<close>

definition torch_save :: "checkpoint \<Rightarrow> checkpoint" where
  "torch_save sd = sd"

text \<open>
  Modelled from the spec: \<^verbatim>\<open>torch.load\<close>, missing from the source: the mapping the
  file holds.
\<close>

definition torch_load :: "checkpoint \<Rightarrow> checkpoint" where
  "torch_load file = file"

text \<open>
  Modelled from the spec: the copying loop of \<^verbatim>\<open>model.load_state_dict(sd)\<close>, missing
  from the source.  Every parameter of the model is looked up by name and its values
  are overwritten in place; a missing name or a tensor of another shape is an error.
\<close>

fun load_params ::
  "checkpoint \<Rightarrow> (pname \<times> nat Parameter) list \<Rightarrow> (nat \<Rightarrow> weights) \<Rightarrow> error + (nat \<Rightarrow> weights)" where
  "load_params sd [] \<theta> = Inr \<theta>"
| "load_params sd (np # nps) \<theta> =
     (case map_of sd (fst np) of
        None \<Rightarrow> Inl RuntimeError
      | Some sv \<Rightarrow>
          if fst sv \<noteq> shape (snd np) then Inl RuntimeError
          else load_params sd nps (\<theta>(data (snd np) := snd sv)))"

text \<open>
  Modelled from the spec: \<^verbatim>\<open>model.load_state_dict(sd)\<close> of the library, missing from
  the source: a name the model does not have is an error; otherwise the parameters are
  copied.
\<close>

definition load_state_dict ::
  "nat ViT \<Rightarrow> checkpoint \<Rightarrow> (nat \<Rightarrow> weights) \<Rightarrow> error + (nat \<Rightarrow> weights)" where
  "load_state_dict m sd \<theta> =
     (if \<not> list_all (\<lambda>e. fst e \<in> set (map fst (ViT_named m))) sd then Inl RuntimeError
      else load_params sd (ViT_named m) \<theta>)"


section \<open>Construction: what is validated\<close>

lemma Attention_init_scale:
  assumes "0 < h" "h \<le> d" "0 \<le> p" "p \<le> 1"
  shows "\<exists>a k'. Attention_init d h p k = Inr (a, k') \<and> attn_heads a = h
           \<and> scale a = real (d div h) powr (- 0.5)"
proof -
  have "d div h \<noteq> 0" using assms by (simp add: div_eq_0_iff)
  then show ?thesis using assms
    by (simp add: Attention_init_def py_floordiv_def py_pow_neg_half_def nn_Linear_def
        nn_Dropout_def)
qed

lemma Attention_init_not_Inl:
  assumes "0 < h" "h \<le> d" "0 \<le> p" "p \<le> 1"
  shows "Attention_init d h p k \<noteq> Inl e"
  using Attention_init_scale [OF assms, of k] by auto

lemma FeedForward_init_not_Inl:
  assumes "0 \<le> p" "p \<le> 1"
  shows "FeedForward_init d m p k \<noteq> Inl e"
  using assms by (simp add: FeedForward_init_def nn_Linear_def nn_Dropout_def)

lemma Transformer_layers_not_Inl:
  assumes "0 < h" "h \<le> d" "0 \<le> p" "p \<le> 1"
  shows "Transformer_layers d h m p n k \<noteq> Inl e"
proof (induction n arbitrary: k)
  case 0
  show ?case by simp
next
  case (Suc n)
  show ?case
    using Attention_init_not_Inl [OF assms] FeedForward_init_not_Inl [OF assms(3,4)] Suc.IH
    by (auto split: sum.splits prod.splits)
qed

lemma ViT_init_assert:
  assumes "patch_size c \<noteq> 0" "image_size c mod patch_size c \<noteq> 0"
  shows "ViT_init c k = Inl AssertionError"
  using assms by (simp add: ViT_init_def py_mod_def)

lemma ViT_init_not_Inl:
  assumes "patch_size c \<noteq> 0" "image_size c mod patch_size c = 0"
    "0 < heads c" "heads c \<le> dim c" "0 \<le> dropout c" "dropout c \<le> 1"
    "0 \<le> emb_dropout c" "emb_dropout c \<le> 1"
  shows "ViT_init c k \<noteq> Inl e"
  using assms(1,2,7,8) Transformer_layers_not_Inl [OF assms(3,4,5,6)]
  by (auto simp: ViT_init_def py_mod_def py_floordiv_def nn_Dropout_def
        Transformer_init_def Let_def split: sum.splits prod.splits)

lemma ViT_init_succeeds:
  assumes "patch_size c \<noteq> 0" "image_size c mod patch_size c = 0"
    "0 < heads c" "heads c \<le> dim c" "0 \<le> dropout c" "dropout c \<le> 1"
    "0 \<le> emb_dropout c" "emb_dropout c \<le> 1"
  shows "\<not> isl (ViT_init c k)"
  using ViT_init_not_Inl [OF assms, of k] by (cases "ViT_init c k") auto

text \<open>
  C2, as the code has it.  The constructor raises \<open>AssertionError\<close> when the (non-zero)
  patch size does not divide the image size.  Whether \<open>heads\<close> divides the embedding
  dimension is not tested at construction: \<^verbatim>\<open>dim // heads\<close> is a floor division, and
  for every configuration whose patch size divides the image size, with
  \<open>1 \<le> heads \<le> dim\<close> and dropout rates in \<open>[0, 1]\<close>, construction succeeds, whether
  or not \<open>heads\<close> divides \<open>dim\<close>.
\<close>

theorem ViT_init_validation:
  "(patch_size c \<noteq> 0 \<and> image_size c mod patch_size c \<noteq> 0
      \<longrightarrow> ViT_init c k = Inl AssertionError)
   \<and> (patch_size c \<noteq> 0 \<and> image_size c mod patch_size c = 0
        \<and> 0 < heads c \<and> heads c \<le> dim c
        \<and> 0 \<le> dropout c \<and> dropout c \<le> 1 \<and> 0 \<le> emb_dropout c \<and> emb_dropout c \<le> 1
      \<longrightarrow> \<not> isl (ViT_init c k))"
proof (intro conjI impI)
  assume "patch_size c \<noteq> 0 \<and> image_size c mod patch_size c \<noteq> 0"
  then show "ViT_init c k = Inl AssertionError"
    by (simp add: ViT_init_assert)
next
  assume "patch_size c \<noteq> 0 \<and> image_size c mod patch_size c = 0
        \<and> 0 < heads c \<and> heads c \<le> dim c
        \<and> 0 \<le> dropout c \<and> dropout c \<le> 1 \<and> 0 \<le> emb_dropout c \<and> emb_dropout c \<le> 1"
  then show "\<not> isl (ViT_init c k)"
    by (intro ViT_init_succeeds) simp_all
qed

theorem ViT_init_validation_witness:
  "ViT_init (script_config \<lparr> image_size := 30 \<rparr>) 0 = Inl AssertionError
   \<and> \<not> isl (ViT_init script_config 0)"
  using ViT_init_validation [of "script_config \<lparr> image_size := 30 \<rparr>" 0]
    ViT_init_validation [of script_config 0]
  by (simp add: script_config_def)

text \<open>
  C2 as the spec words it does not hold: with the script's configuration and
  \<open>heads = 7\<close>, which does not divide \<open>dim = 512\<close>, construction succeeds.
\<close>

theorem ViT_init_heads_not_checked:
  "dim (script_config \<lparr> heads := 7 \<rparr>) mod heads (script_config \<lparr> heads := 7 \<rparr>) \<noteq> 0
   \<and> \<not> isl (ViT_init (script_config \<lparr> heads := 7 \<rparr>) 0)"
  using ViT_init_succeeds [of "script_config \<lparr> heads := 7 \<rparr>" 0]
  by (simp add: script_config_def)

section \<open>The attention scale\<close>

lemma powr_neg_half_64: "(64::real) powr (- 0.5) = 0.125"
proof -
  have "(64::real) powr (1/2) = sqrt 64" by (rule powr_half_sqrt) simp
  also have "sqrt 64 = sqrt (8 ^ 2)" by simp
  also have "\<dots> = 8" by (simp del: power2_eq_square)
  finally have "(64::real) powr (1/2) = 8" .
  then show ?thesis by (simp add: powr_minus)
qed

text \<open>
  C7.  When \<open>heads\<close> divides \<open>dim\<close>, \<^verbatim>\<open>Attention.__init__\<close> stores
  \<open>scale = d ** -0.5\<close> for the per-head dimension \<open>d = dim / heads\<close>; for
  \<open>dim = 512\<close>, \<open>heads = 8\<close> the per-head dimension is 64 and the scale is 0.125.
\<close>

theorem attention_scale_value:
  "(0 < h \<and> h dvd d \<and> 0 < d \<and> 0 \<le> p \<and> p \<le> 1 \<longrightarrow>
      (\<exists>a k'. Attention_init d h p k = Inr (a, k')
         \<and> scale a = (real d / real h) powr (- 0.5)))
   \<and> (\<exists>a k'. Attention_init 512 8 0.1 k = Inr (a, k')
         \<and> real (512 div 8 :: nat) = 64 \<and> scale a = 0.125)"
proof (intro conjI impI)
  assume a: "0 < h \<and> h dvd d \<and> 0 < d \<and> 0 \<le> p \<and> p \<le> 1"
  then have "h \<le> d" by (auto dest: dvd_imp_le)
  moreover have "real (d div h) = real d / real h"
    using a by (simp add: real_of_nat_div)
  ultimately show "\<exists>a k'. Attention_init d h p k = Inr (a, k')
      \<and> scale a = (real d / real h) powr (- 0.5)"
    using Attention_init_scale [of h d p k] a by auto
next
  have "real (512 div 8 :: nat) = 64" by simp
  then show "\<exists>a k'. Attention_init 512 8 0.1 k = Inr (a, k')
      \<and> real (512 div 8 :: nat) = 64 \<and> scale a = 0.125"
    using Attention_init_scale [of 8 512 "0.1" k] powr_neg_half_64 by auto
qed

theorem attention_scale_value_witness:
  "\<exists>a k'. Attention_init 512 8 0.1 0 = Inr (a, k') \<and> scale a = (512 / 8) powr (- 0.5)"
  using attention_scale_value [of 8 512 "0.1" 0] by simp

section \<open>The training loop and the script\<close>

lemma train_step_unbound:
  "g_scaler g = None \<Longrightarrow> train_step env (g, l) b = Inl (NameError ''scaler'', g, l)"
  by (simp add: train_step_def split: prod.splits)

lemma from_scratch_fails:
  "from_scratch_section env st (b # bs) testloader
     = Inl (NameError ''scaler'', globals_from_scratch st, locals_init)"
proof -
  have s: "g_scaler (globals_from_scratch st) = None"
    by (simp add: globals_from_scratch_def)
  have "train_one_epoch env (globals_from_scratch st) (b # bs)
      = Inl (NameError ''scaler'', globals_from_scratch st, locals_init)"
    by (simp add: train_one_epoch_def train_step_unbound [OF s])
  moreover have "g_EPOCHS (globals_from_scratch st) = Suc 9"
    by (simp add: globals_from_scratch_def)
  ultimately show ?thesis
    unfolding from_scratch_section_def by (simp only: epochs.simps sum.case)
qed

lemma script_fails:
  "trainloader \<noteq> [] \<Longrightarrow> script env st trainloader testloader st2 tl2 te2
     = Inl (NameError ''scaler'', globals_from_scratch st, locals_init)"
  by (cases trainloader) (simp_all add: script_def from_scratch_fails)

lemma scaled_step_overflow:
  assumes "step_overflows env sg b"
  shows "scaled_step env sg b
     = (fst sg, \<lparr> loss_scale = loss_scale (snd sg) / 2, growth_tracker = 0 \<rparr>)"
  using assms
  by (cases sg) (simp add: scaled_step_def step_overflows_def GradScaler_step_def
      GradScaler_update_def Let_def)

lemma scaled_step_success:
  assumes "\<not> step_overflows env sg b"
  shows "snd (scaled_step env sg b)
     = (if growth_tracker (snd sg) + 1 = growth_interval
        then \<lparr> loss_scale = loss_scale (snd sg) * 2, growth_tracker = 0 \<rparr>
        else (snd sg) \<lparr> growth_tracker := growth_tracker (snd sg) + 1 \<rparr>)"
  using assms
  by (cases sg) (simp add: scaled_step_def step_overflows_def GradScaler_step_def
      GradScaler_update_def Let_def)

lemma state_after_0: "state_after env sg bs 0 = sg"
  by (simp add: state_after_def)

lemma state_after_Suc:
  "i < length bs \<Longrightarrow>
     state_after env sg bs (Suc i) = scaled_step env (state_after env sg bs i) (bs ! i)"
  by (simp add: state_after_def take_Suc_conv_app_nth)

lemma run_inv_0:
  assumes "0 < loss_scale (snd sg)" "growth_tracker (snd sg) = 0"
  shows "run_inv env sg bs 0"
  using assms by (simp add: run_inv_def state_after_0 growth_interval_def)

lemma run_inv_Suc:
  assumes "run_inv env sg bs i" "i < length bs"
  shows "run_inv env sg bs (Suc i)"
proof (cases "overflow_at env sg bs i")
  case True
  then have "snd (state_after env sg bs (Suc i))
      = \<lparr> loss_scale = loss_scale (snd (state_after env sg bs i)) / 2, growth_tracker = 0 \<rparr>"
    by (simp add: state_after_Suc [OF assms(2)] overflow_at_def scaled_step_overflow)
  then show ?thesis using assms(1)
    by (simp add: run_inv_def Let_def growth_interval_def)
next
  case False
  let ?gs = "snd (state_after env sg bs i)"
  have s: "snd (state_after env sg bs (Suc i))
      = (if growth_tracker ?gs + 1 = growth_interval
        then \<lparr> loss_scale = loss_scale ?gs * 2, growth_tracker = 0 \<rparr>
        else ?gs \<lparr> growth_tracker := growth_tracker ?gs + 1 \<rparr>)"
    using False by (simp add: state_after_Suc [OF assms(2)] overflow_at_def scaled_step_success)
  show ?thesis
  proof (cases "growth_tracker ?gs + 1 = growth_interval")
    case True
    then show ?thesis using assms(1) s
      by (simp add: run_inv_def Let_def growth_interval_def)
  next
    case ng: False
    have "\<forall>j. Suc i - (growth_tracker ?gs + 1) \<le> j \<and> j < Suc i \<longrightarrow> \<not> overflow_at env sg bs j"
    proof (intro allI impI)
      fix j assume j: "Suc i - (growth_tracker ?gs + 1) \<le> j \<and> j < Suc i"
      show "\<not> overflow_at env sg bs j"
      proof (cases "j = i")
        case True then show ?thesis using False by simp
      next
        case False
        then have "i - growth_tracker ?gs \<le> j \<and> j < i" using j by simp
        then show ?thesis using assms(1) by (simp add: run_inv_def Let_def)
      qed
    qed
    then show ?thesis using assms(1) s ng
      by (simp add: run_inv_def Let_def)
  qed
qed

lemma run_inv_all:
  assumes "0 < loss_scale (snd sg)" "growth_tracker (snd sg) = 0" "i \<le> length bs"
  shows "run_inv env sg bs i"
  using assms(3)
proof (induction i)
  case 0
  show ?case by (rule run_inv_0 [OF assms(1,2)])
next
  case (Suc i)
  then show ?case by (simp add: run_inv_Suc)
qed

lemma scale_growth:
  assumes "0 < loss_scale (snd sg)" "growth_tracker (snd sg) = 0" "i < length bs"
    "loss_scale (snd (state_after env sg bs i)) < loss_scale (snd (state_after env sg bs (Suc i)))"
  shows "growth_interval \<le> Suc i
     \<and> (\<forall>j. Suc i - growth_interval \<le> j \<and> j \<le> i \<longrightarrow> \<not> overflow_at env sg bs j)
     \<and> growth_tracker (snd (state_after env sg bs (Suc i - growth_interval))) = 0
     \<and> loss_scale (snd (state_after env sg bs (Suc i)))
         = 2 * loss_scale (snd (state_after env sg bs i))
     \<and> growth_tracker (snd (state_after env sg bs (Suc i))) = 0"
proof -
  let ?gs = "snd (state_after env sg bs i)"
  have inv: "run_inv env sg bs i"
    using assms(1,2,3) by (intro run_inv_all) simp_all
  then have pos: "0 < loss_scale ?gs" by (simp add: run_inv_def Let_def)
  have no: "\<not> overflow_at env sg bs i"
  proof
    assume "overflow_at env sg bs i"
    then have "loss_scale (snd (state_after env sg bs (Suc i))) = loss_scale ?gs / 2"
      by (simp add: state_after_Suc [OF assms(3)] overflow_at_def scaled_step_overflow)
    then show False using assms(4) pos by simp
  qed
  then have s: "snd (state_after env sg bs (Suc i))
      = (if growth_tracker ?gs + 1 = growth_interval
        then \<lparr> loss_scale = loss_scale ?gs * 2, growth_tracker = 0 \<rparr>
        else ?gs \<lparr> growth_tracker := growth_tracker ?gs + 1 \<rparr>)"
    by (simp add: state_after_Suc [OF assms(3)] overflow_at_def scaled_step_success)
  have t: "growth_tracker ?gs + 1 = growth_interval"
  proof (rule ccontr)
    assume "growth_tracker ?gs + 1 \<noteq> growth_interval"
    then have "loss_scale (snd (state_after env sg bs (Suc i))) = loss_scale ?gs"
      using s by simp
    then show False using assms(4) by simp
  qed
  have e: "Suc i - growth_interval = i - growth_tracker ?gs"
    by (simp add: t [symmetric])
  have "\<forall>j. Suc i - growth_interval \<le> j \<and> j \<le> i \<longrightarrow> \<not> overflow_at env sg bs j"
  proof (intro allI impI)
    fix j assume j: "Suc i - growth_interval \<le> j \<and> j \<le> i"
    show "\<not> overflow_at env sg bs j"
    proof (cases "j = i")
      case True then show ?thesis using no by simp
    next
      case False
      then have "i - growth_tracker ?gs \<le> j \<and> j < i" using j e by simp
      then show ?thesis using inv by (simp add: run_inv_def Let_def)
    qed
  qed
  moreover have "growth_interval \<le> Suc i"
    using inv t by (simp add: run_inv_def Let_def)
  moreover have "growth_tracker (snd (state_after env sg bs (Suc i - growth_interval))) = 0"
    using inv e by (simp add: run_inv_def Let_def)
  ultimately show ?thesis using s t by simp
qed

section \<open>Shapes of a forward pass\<close>

lemma ViT_init_fields:
  assumes "ViT_init c k = Inr (m, k')"
  shows "patch_size c \<noteq> 0" and "image_size c mod patch_size c = 0"
    and "to_patch_embedding m = Conv2d (channels c) (dim c) (patch_size c) (patch_size c)
           (Parameter [dim c, channels c, patch_size c, patch_size c] k)
           (Parameter [dim c] (k + 1))"
    and "pos_embedding m = Parameter [1, (image_size c div patch_size c)\<^sup>2 + 1, dim c] (k + 2)"
    and "cls_token m = Parameter [1, 1, dim c] (k + 3)"
  using assms
  by (auto simp: ViT_init_def py_mod_def py_floordiv_def nn_Conv2d_def Let_def
      split: sum.splits prod.splits if_splits)

lemma conv_out_size:
  assumes "0 < p" "p \<le> h"
  shows "Suc ((h - p) div p) = h div (p::nat)"
proof -
  have "h = (h - p) + p" using assms by simp
  then have "h div p = ((h - p) + p) div p" by simp
  also have "\<dots> = (h - p) div p + 1" using assms(1) by simp
  finally show ?thesis by simp
qed

lemma Conv2d_shape_patch:
  assumes "0 < p"
  shows "Conv2d_shape (Conv2d ic oc p p wt bs) b ch h w =
     (if ch \<noteq> ic \<or> h < p \<or> w < p then Inl RuntimeError
      else Inr [b, oc, h div p, w div p])"
  using assms by (simp add: Conv2d_shape_def conv_out_size not_less)

lemma patch_embedding_shape_eq:
  assumes "ViT_init c k = Inr (m, k')"
  shows "patch_embedding_shape m b ch h w =
     (if ch \<noteq> channels c \<or> h < patch_size c \<or> w < patch_size c then Inl RuntimeError
      else Inr [b, (h div patch_size c) * (w div patch_size c), dim c])"
proof -
  have p: "0 < patch_size c" using ViT_init_fields(1) [OF assms] by simp
  show ?thesis
    using p 
    by (simp add: patch_embedding_shape_def ViT_init_fields(3) [OF assms] Conv2d_shape_patch
        flatten2_shape_def transpose12_shape_def)
qed

lemma token_sequence_shape_eq:
  assumes "ViT_init c k = Inr (m, k')" "patch_size c \<le> image_size c"
  shows "token_sequence_shape m b ch h w =
     (if ch \<noteq> channels c \<or> h < patch_size c \<or> w < patch_size c
         \<or> (h div patch_size c) * (w div patch_size c) \<noteq> (image_size c div patch_size c)\<^sup>2
      then Inl RuntimeError
      else Inr [b, (image_size c div patch_size c)\<^sup>2 + 1, dim c])"
proof -
  have p: "0 < patch_size c" using ViT_init_fields(1) [OF assms(1)] by simp
  then have "0 < image_size c div patch_size c"
    using assms(2) by (simp add: div_greater_zero_iff)
  then have n: "0 < (image_size c div patch_size c)\<^sup>2" by simp
  show ?thesis
    using n
    by (auto simp: token_sequence_shape_def patch_embedding_shape_eq [OF assms(1)]
        ViT_init_fields(4,5) [OF assms(1)] expand0_shape_def cat1_shape_def iadd_shape_def
        add_shape_def)
qed

lemma Attention_init_wf:
  assumes "Attention_init d h p k = Inr (a, k')"
  shows "attention_wf d h p a"
  using assms
  by (auto simp: Attention_init_def py_floordiv_def py_pow_neg_half_def nn_Linear_def
      nn_Dropout_def attention_wf_def split: sum.splits if_splits)

lemma FeedForward_init_wf:
  assumes "FeedForward_init d mlp_d p k = Inr (f, k')"
  shows "feedforward_wf d mlp_d p f"
  using assms
  by (auto simp: FeedForward_init_def nn_Linear_def nn_Dropout_def feedforward_wf_def
      split: sum.splits if_splits)

lemma Transformer_layers_wf:
  assumes "Transformer_layers d h mlp_d p n k = Inr (ls, k')"
  shows "\<forall>l \<in> set ls. layer_wf d h mlp_d p l"
  using assms
proof (induction n arbitrary: k ls)
  case 0
  then show ?case by simp
next
  case (Suc n)
  from Suc.prems obtain a k1 f k3 ls' where
    a: "Attention_init d h p k = Inr (a, k1)" and
    f: "FeedForward_init d mlp_d p (snd (PreNorm_init d (AttentionFn a) k1)) = Inr (f, k3)" and
    r: "Transformer_layers d h mlp_d p n (snd (PreNorm_init d (FeedForwardFn f) k3)) = Inr (ls', k')" and
    ls: "ls = (fst (PreNorm_init d (AttentionFn a) k1), fst (PreNorm_init d (FeedForwardFn f) k3)) # ls'"
    by (auto split: sum.splits prod.splits)
  have "layer_wf d h mlp_d p
      (fst (PreNorm_init d (AttentionFn a) k1), fst (PreNorm_init d (FeedForwardFn f) k3))"
    using Attention_init_wf [OF a] FeedForward_init_wf [OF f]
    by (simp add: layer_wf_def PreNorm_init_def nn_LayerNorm_def)
  then show ?case using Suc.IH [OF r] ls by simp
qed

lemma add_shape_same: "add_shape s s = Inr s"
proof -
  have "broadcast_rev r r = Inr r" for r
    by (induction r) simp_all
  then show ?thesis by (simp add: add_shape_def)
qed

lemma chunk3_sizes_3:
  assumes "0 < d"
  shows "chunk3_sizes (d * 3) = [d, d, d]"
proof -
  have cs: "(d * 3 + 2) div 3 = d" by arith
  have q: "d * 3 div d = 3" using assms by simp
  have r: "d * 3 mod d = 0" by simp
  have rep: "replicate 3 d = [d, d, d]" by (simp add: numeral_3_eq_3)
  have nz: "d * 3 \<noteq> 0" using assms by simp
  show ?thesis
    unfolding chunk3_sizes_def Let_def cs q r rep using nz by simp
qed

lemma split_heads_shape_ok:
  assumes "0 < b" "0 < n" "0 < h" "h dvd d"
  shows "split_heads_shape b n h [b, n, d] = Inr [b, h, n, d div h]"
proof -
  obtain q where q: "d = h * q" using assms(4) by (auto simp: dvd_def)
  have nz: "b * (n * h) \<noteq> 0" using assms(1-3) by simp
  have e: "b * (n * d) = q * (b * (n * h))" by (simp add: q)
  have m: "b * (n * d) mod (b * (n * h)) = 0" unfolding e by simp
  have dv: "b * (n * d) div (b * (n * h)) = q" unfolding e using nz by simp
  have dq: "d div h = q" using assms(3) q by simp
  have p1: "prod_list [b, n, d] = b * (n * d)" by simp
  have p2: "prod_list [b, n, h] = b * (n * h)" by simp
  have "reshape_infer_shape [b, n, d] [b, n, h] = Inr [b, n, h, q]"
    unfolding reshape_infer_shape_def p1 p2 m dv using nz by simp
  then show ?thesis
    by (simp add: split_heads_shape_def transpose12_shape_def dq)
qed

lemma merge_heads_shape_ok:
  assumes "0 < b" "0 < n" "0 < h" "h dvd d"
  shows "reshape_infer_shape [b, n, h, d div h] [b, n] = Inr [b, n, d]"
proof -
  have hd: "h * (d div h) = d" using assms(4) by simp
  have nz: "b * n \<noteq> 0" using assms(1-2) by simp
  have p1: "prod_list [b, n, h, d div h] = d * (b * n)" using hd by (simp add: mult.assoc mult.commute)
  have p2: "prod_list [b, n] = b * n" by simp
  have m: "d * (b * n) mod (b * n) = 0" by simp
  have dv: "d * (b * n) div (b * n) = d" using nz by simp
  show ?thesis
    unfolding reshape_infer_shape_def p1 p2 m dv using nz by simp
qed

lemma FeedForward_forward_shape_ok:
  assumes "feedforward_wf d mlp_d p f"
  shows "FeedForward_forward_shape f [b, n, d] = Inr [b, n, d]"
  using assms by (simp add: FeedForward_forward_shape_def Linear_shape_def feedforward_wf_def)

lemma Attention_forward_shape_ok:
  assumes "attention_wf d h p a" "0 < b" "0 < n" "0 < h" "h dvd d" "0 < d"
  shows "Attention_forward_shape a [b, n, d] = Inr [b, n, d]"
proof -
  have l1: "Linear_shape (to_qkv a) [b, n, d] = Inr [b, n, d * 3]"
    using assms(1) by (simp add: Linear_shape_def attention_wf_def)
  have l2: "Linear_shape (to_out0 a) [b, n, d] = Inr [b, n, d]"
    using assms(1) by (simp add: Linear_shape_def attention_wf_def)
  have h: "attn_heads a = h" using assms(1) by (simp add: attention_wf_def)
  have ch: "map (\<lambda>c. butlast [b, n, d * 3] @ [c]) (chunk3_sizes (last [b, n, d * 3]))
      = [[b, n, d], [b, n, d], [b, n, d]]"
    by (simp add: chunk3_sizes_3 [OF assms(6)])
  have sh: "split_heads_shape b n (attn_heads a) [b, n, d] = Inr [b, h, n, d div h]"
    unfolding h by (rule split_heads_shape_ok [OF assms(2-5)])
  have qk: "einsum_qk_shape [b, h, n, d div h] [b, h, n, d div h] = Inr [b, h, n, n]"
    by (simp add: einsum_qk_shape_def)
  have av: "einsum_av_shape [b, h, n, n] [b, h, n, d div h] = Inr [b, h, n, d div h]"
    by (simp add: einsum_av_shape_def)
  have tr: "transpose12_shape [b, h, n, d div h] = Inr [b, n, h, d div h]"
    by (simp add: transpose12_shape_def)
  show ?thesis
    unfolding Attention_forward_shape_def
    by (simp only: list.case l1 sum.case ch sh qk av tr merge_heads_shape_ok [OF assms(2-5)] l2)
qed

lemma layers_forward_shape_ok:
  assumes "\<forall>l \<in> set ls. layer_wf d h mlp_d p l" "0 < b" "0 < n" "0 < h" "h dvd d" "0 < d"
  shows "layers_forward_shape ls [b, n, d] = Inr [b, n, d]"
  using assms(1)
proof (induction ls)
  case Nil
  show ?case by simp
next
  case (Cons l ls)
  obtain pa pf where l: "l = (pa, pf)" by (cases l)
  from Cons.prems l obtain a f where
    n1: "normalized_shape (norm pa) = d" and n2: "normalized_shape (norm pf) = d" and
    a: "fn pa = AttentionFn a" "attention_wf d h p a" and
    f: "fn pf = FeedForwardFn f" "feedforward_wf d mlp_d p f"
    by (auto simp: layer_wf_def)
  have pa: "PreNorm_forward_shape pa [b, n, d] = Inr [b, n, d]"
    by (simp add: PreNorm_forward_shape_def LayerNorm_shape_def n1 a(1)
        Attention_forward_shape_ok [OF a(2) assms(2-6)])
  have pf: "PreNorm_forward_shape pf [b, n, d] = Inr [b, n, d]"
    by (simp add: PreNorm_forward_shape_def LayerNorm_shape_def n2 f(1)
        FeedForward_forward_shape_ok [OF f(2)])
  have "layers_forward_shape ls [b, n, d] = Inr [b, n, d]"
    using Cons by simp
  then show ?case
    by (simp add: l pa pf add_shape_same)
qed

lemma ViT_init_rest:
  assumes "ViT_init c k = Inr (m, k')"
  shows "\<forall>l \<in> set (layers (transformer m)). layer_wf (dim c) (heads c) (mlp_dim c) (dropout c) l"
    and "normalized_shape (mlp_head0 m) = dim c"
    and "in_features (mlp_head1 m) = dim c" and "out_features (mlp_head1 m) = num_classes c"
    and "drop_p (vit_dropout m) = emb_dropout c"
    and "length (layers (transformer m)) = depth c"
proof -
  from assms obtain ls k1 k2 where
    ls: "Transformer_layers (dim c) (heads c) (mlp_dim c) (dropout c) (depth c) k1 = Inr (ls, k2)"
    and m: "transformer m = Transformer ls"
      "mlp_head0 m = fst (nn_LayerNorm (dim c) k2)"
      "mlp_head1 m = fst (nn_Linear (dim c) (num_classes c) True (snd (nn_LayerNorm (dim c) k2)))"
      "vit_dropout m = Dropout (emb_dropout c)"
    by (auto simp: ViT_init_def py_mod_def py_floordiv_def nn_Conv2d_def Let_def
        Transformer_init_def nn_Dropout_def
        split: sum.splits prod.splits if_splits)
  show "\<forall>l \<in> set (layers (transformer m)). layer_wf (dim c) (heads c) (mlp_dim c) (dropout c) l"
    using Transformer_layers_wf [OF ls] m(1) by simp
  show "normalized_shape (mlp_head0 m) = dim c" by (simp add: m(2) nn_LayerNorm_def)
  show "in_features (mlp_head1 m) = dim c" "out_features (mlp_head1 m) = num_classes c"
    by (simp_all add: m(3) nn_Linear_def)
  show "drop_p (vit_dropout m) = emb_dropout c" by (simp add: m(4))
  have "length ls' = n" if "Transformer_layers d h q p n j = Inr (ls', j')" for d h q p n j ls' j'
    using that by (induction n arbitrary: j ls') (auto split: sum.splits prod.splits)
  then show "length (layers (transformer m)) = depth c" using ls m(1) by simp
qed

lemma ViT_forward_shape_ok:
  assumes "ViT_init c k = Inr (m, k')" "patch_size c \<le> image_size c"
    "0 < heads c" "heads c dvd dim c" "0 < dim c" "0 < b"
    "patch_size c \<le> h" "patch_size c \<le> w"
    "(h div patch_size c) * (w div patch_size c) = (image_size c div patch_size c)\<^sup>2"
  shows "ViT_forward_shape m b (channels c) h w = Inr [b, num_classes c]"
proof -
  have t: "token_sequence_shape m b (channels c) h w
      = Inr [b, (image_size c div patch_size c)\<^sup>2 + 1, dim c]"
    using assms(7-9) by (simp add: token_sequence_shape_eq [OF assms(1,2)])
  have l: "Transformer_forward_shape (transformer m) [b, Suc ((image_size c div patch_size c)\<^sup>2), dim c]
      = Inr [b, Suc ((image_size c div patch_size c)\<^sup>2), dim c]"
    unfolding Transformer_forward_shape_def
    by (rule layers_forward_shape_ok [OF ViT_init_rest(1) [OF assms(1)] assms(6) _ assms(3,4,5)]) simp
  show ?thesis
    by (simp add: ViT_forward_shape_def t l select_first_shape_def LayerNorm_shape_def
        Linear_shape_def ViT_init_rest(2-4) [OF assms(1)])
qed


section \<open>Shape properties of the model\<close>

lemma script_config_constructs:
  "\<exists>m k'. ViT_init script_config 0 = Inr (m, k')"
proof -
  have "\<not> isl (ViT_init script_config 0)"
    by (rule ViT_init_succeeds) (simp_all add: script_config_def)
  then show ?thesis by (cases "ViT_init script_config 0") auto
qed

text \<open>
  C6.  For a model that was constructed, and an image batch \<open>[b, channels, h, w]\<close>
  whose height and width are positive multiples of the patch size \<open>P\<close>, the
  patch-embedding stage returns a token sequence of shape
  \<open>[b, (h / P) * (w / P), dim]\<close>, the class token not yet included.
\<close>

theorem patch_embedding_output_shape:
  assumes "ViT_init c k = Inr (m, k')" "0 < h" "0 < w"
    "patch_size c dvd h" "patch_size c dvd w"
  shows "patch_embedding_shape m b (channels c) h w
      = Inr [b, (h div patch_size c) * (w div patch_size c), dim c]"
proof -
  have "patch_size c \<le> h" "patch_size c \<le> w"
    using assms(2-5) by (auto dest: dvd_imp_le)
  then show ?thesis by (simp add: patch_embedding_shape_eq [OF assms(1)])
qed

theorem patch_embedding_output_shape_witness:
  "\<exists>m k'. ViT_init script_config 0 = Inr (m, k')
     \<and> patch_embedding_shape m 128 3 32 32 = Inr [128, 64, 512]"
proof -
  obtain m k' where m: "ViT_init script_config 0 = Inr (m, k')"
    using script_config_constructs by blast
  have "patch_embedding_shape m 128 (channels script_config) 32 32
      = Inr [128, (32 div patch_size script_config) * (32 div patch_size script_config),
             dim script_config]"
    by (rule patch_embedding_output_shape [OF m]) (simp_all add: script_config_def)
  then show ?thesis using m by (simp add: script_config_def)
qed

text \<open>
  C10, as the code has it.  A forward pass does not need the input to have the
  configured image size.  For a constructed model with \<open>patch_size \<le> image_size\<close>
  and \<open>N = (image_size div patch_size)\<^sup>2\<close>: whenever the patch count
  \<open>(h div P) * (w div P)\<close> of the input differs from \<open>N\<close> the pass raises a shape error
  (at the latest when the \<open>[1, N + 1, D]\<close> positional embedding is added), and every
  pass that succeeds has an input with at least one patch in each direction, patch count
  \<open>N\<close> and a token sequence of shape \<open>[b, N + 1, D]\<close>.
\<close>

theorem forward_needs_patch_count:
  assumes "ViT_init c k = Inr (m, k')" "patch_size c \<le> image_size c"
  shows "((h div patch_size c) * (w div patch_size c) \<noteq> (image_size c div patch_size c)\<^sup>2
           \<longrightarrow> ViT_forward_shape m b ch h w = Inl RuntimeError)
     \<and> (ViT_forward_shape m b ch h w = Inr s \<longrightarrow>
           patch_size c \<le> h \<and> patch_size c \<le> w
           \<and> (h div patch_size c) * (w div patch_size c) = (image_size c div patch_size c)\<^sup>2
           \<and> token_sequence_shape m b ch h w
               = Inr [b, (image_size c div patch_size c)\<^sup>2 + 1, dim c])"
proof (rule conjI)
  show "(h div patch_size c) * (w div patch_size c) \<noteq> (image_size c div patch_size c)\<^sup>2
      \<longrightarrow> ViT_forward_shape m b ch h w = Inl RuntimeError"
    by (simp add: ViT_forward_shape_def token_sequence_shape_eq [OF assms])
next
  show "ViT_forward_shape m b ch h w = Inr s \<longrightarrow>
           patch_size c \<le> h \<and> patch_size c \<le> w
           \<and> (h div patch_size c) * (w div patch_size c) = (image_size c div patch_size c)\<^sup>2
           \<and> token_sequence_shape m b ch h w
               = Inr [b, (image_size c div patch_size c)\<^sup>2 + 1, dim c]"
  proof (rule impI)
    assume "ViT_forward_shape m b ch h w = Inr s"
    then have "\<exists>x. token_sequence_shape m b ch h w = Inr x"
      by (auto simp: ViT_forward_shape_def split: sum.splits)
    then have "\<not> (ch \<noteq> channels c \<or> h < patch_size c \<or> w < patch_size c
         \<or> (h div patch_size c) * (w div patch_size c) \<noteq> (image_size c div patch_size c)\<^sup>2)"
      by (auto simp: token_sequence_shape_eq [OF assms] split: if_splits)
    then show "patch_size c \<le> h \<and> patch_size c \<le> w
      \<and> (h div patch_size c) * (w div patch_size c) = (image_size c div patch_size c)\<^sup>2
      \<and> token_sequence_shape m b ch h w
          = Inr [b, (image_size c div patch_size c)\<^sup>2 + 1, dim c]"
      by (simp add: token_sequence_shape_eq [OF assms] not_less)
  qed
qed

lemma script_model_forward:
  assumes "ViT_init script_config 0 = Inr (m, k')" "0 < b" "4 \<le> h" "4 \<le> w"
    "(h div 4) * (w div 4) = 64"
  shows "ViT_forward_shape m b 3 h w = Inr [b, 10]"
proof -
  have "ViT_forward_shape m b (channels script_config) h w = Inr [b, num_classes script_config]"
    by (rule ViT_forward_shape_ok [OF assms(1)]) (use assms(2-5) in \<open>simp_all add: script_config_def\<close>)
  then show ?thesis by (simp add: script_config_def)
qed

theorem forward_needs_patch_count_witness:
  "\<exists>m k'. ViT_init script_config 0 = Inr (m, k')
     \<and> ViT_forward_shape m 2 3 32 32 = Inr [2, 10]
     \<and> token_sequence_shape m 2 3 32 32 = Inr [2, 65, 512]
     \<and> ViT_forward_shape m 2 3 64 64 = Inl RuntimeError"
proof -
  obtain m k' where m: "ViT_init script_config 0 = Inr (m, k')"
    using script_config_constructs by blast
  have le: "patch_size script_config \<le> image_size script_config"
    by (simp add: script_config_def)
  have f: "ViT_forward_shape m 2 3 32 32 = Inr [2, 10]"
    by (rule script_model_forward [OF m]) simp_all
  have "token_sequence_shape m 2 3 32 32 = Inr [2, 65, 512]"
    using forward_needs_patch_count [OF m le, of 32 32 2 3 "[2, 10]"] f
    by (simp add: script_config_def)
  moreover have "ViT_forward_shape m 2 3 64 64 = Inl RuntimeError"
    using forward_needs_patch_count [OF m le, of 64 64 2 3 "[2, 10]"]
    by (simp add: script_config_def)
  ultimately show ?thesis using m f by blast
qed

text \<open>
  C10 as the spec words it does not hold: the model of the script, configured for 32 by 32 images,
  accepts a batch of one 16 by 64 image and returns logits of shape \<open>[1, 10]\<close>.
\<close>

theorem forward_accepts_other_image_size:
  "construct_and_forward script_config 1 3 16 64 = Inr [1, 10]
   \<and> image_size script_config = 32"
proof -
  obtain m k' where m: "ViT_init script_config 0 = Inr (m, k')"
    using script_config_constructs by blast
  have "ViT_forward_shape m 1 3 16 64 = Inr [1, 10]"
    by (rule script_model_forward [OF m]) simp_all
  then show ?thesis using m
    by (simp add: construct_and_forward_def script_config_def)
qed

section \<open>Properties of the training loop\<close>

text \<open>
  C3.  Run top to bottom on a non-empty training loader, the from-scratch section
  stops in its first training step with \<open>NameError\<close> on \<open>scaler\<close>, and so does the
  script: the fine-tuning section, which binds \<open>scaler\<close>, is never reached.  At the
  raise the model state is the initial one (no parameter update), \<open>scaler\<close> is unbound
  (no loss scaling) and the metric variables hold their initial zeros.
\<close>

theorem from_scratch_raises_NameError:
  assumes "trainloader \<noteq> []"
  shows "from_scratch_section env st trainloader testloader
           = Inl (NameError ''scaler'', globals_from_scratch st, locals_init)
     \<and> script env st trainloader testloader st2 trainloader2 testloader2
           = Inl (NameError ''scaler'', globals_from_scratch st, locals_init)
     \<and> g_model (globals_from_scratch st) = st
     \<and> g_scaler (globals_from_scratch st) = None
     \<and> locals_init = \<lparr> running_loss = 0, correct = 0, total = 0 \<rparr>"
proof -
  obtain b bs where t: "trainloader = b # bs"
    using assms by (cases trainloader) auto
  show ?thesis
    using assms
    by (simp add: t from_scratch_fails script_fails globals_from_scratch_def locals_init_def)
qed

theorem from_scratch_raises_NameError_witness:
  "from_scratch_section demo_ops 0 [False] []
     = Inl (NameError ''scaler'', globals_from_scratch 0, locals_init)
   \<and> script demo_ops 0 [False] [] 0 [False] [False]
     = Inl (NameError ''scaler'', globals_from_scratch 0, locals_init)"
  using from_scratch_raises_NameError [of "[False]" demo_ops 0 "[]" 0 "[False]" "[False]"]
  by simp

text \<open>
  C1 (the gradient scaler is modelled from the spec).  In a run of training steps that
  starts with a fresh scaler: a step that overflows leaves the model state unchanged,
  halves the loss scale and resets the counter to 0; and the loss scale is larger after
  a step than before it only when that step completes a run of exactly
  \<open>growth_interval = 2000\<close> consecutive steps without overflow that started with the
  counter at 0, and then it is doubled and the counter reset.
\<close>

theorem loss_scale_adaptation:
  assumes "snd sg = GradScaler_init" "i < length bs"
  shows "(overflow_at env sg bs i \<longrightarrow>
            fst (state_after env sg bs (Suc i)) = fst (state_after env sg bs i)
          \<and> loss_scale (snd (state_after env sg bs (Suc i)))
              = loss_scale (snd (state_after env sg bs i)) / 2
          \<and> growth_tracker (snd (state_after env sg bs (Suc i))) = 0)
     \<and> (loss_scale (snd (state_after env sg bs i))
            < loss_scale (snd (state_after env sg bs (Suc i))) \<longrightarrow>
            growth_interval = 2000 \<and> growth_interval \<le> Suc i
          \<and> (\<forall>j. Suc i - growth_interval \<le> j \<and> j \<le> i \<longrightarrow> \<not> overflow_at env sg bs j)
          \<and> growth_tracker (snd (state_after env sg bs (Suc i - growth_interval))) = 0
          \<and> loss_scale (snd (state_after env sg bs (Suc i)))
              = 2 * loss_scale (snd (state_after env sg bs i))
          \<and> growth_tracker (snd (state_after env sg bs (Suc i))) = 0)"
proof (intro conjI impI)
  assume o: "overflow_at env sg bs i"
  have s: "state_after env sg bs (Suc i)
      = (fst (state_after env sg bs i),
         \<lparr> loss_scale = loss_scale (snd (state_after env sg bs i)) / 2, growth_tracker = 0 \<rparr>)"
    using o by (simp add: state_after_Suc [OF assms(2)] overflow_at_def scaled_step_overflow)
  show "fst (state_after env sg bs (Suc i)) = fst (state_after env sg bs i)"
    by (simp add: s)
  show "loss_scale (snd (state_after env sg bs (Suc i)))
      = loss_scale (snd (state_after env sg bs i)) / 2"
    by (simp add: s)
  show "growth_tracker (snd (state_after env sg bs (Suc i))) = 0"
    by (simp add: s)
next
  assume g: "loss_scale (snd (state_after env sg bs i))
      < loss_scale (snd (state_after env sg bs (Suc i)))"
  have p: "0 < loss_scale (snd sg)" "growth_tracker (snd sg) = 0"
    by (simp_all add: assms(1) GradScaler_init_def)
  note r = scale_growth [OF p assms(2) g]
  show "growth_interval = 2000" by (simp add: growth_interval_def)
  show "growth_interval \<le> Suc i" using r by simp
  show "\<forall>j. Suc i - growth_interval \<le> j \<and> j \<le> i \<longrightarrow> \<not> overflow_at env sg bs j"
    using r by simp
  show "growth_tracker (snd (state_after env sg bs (Suc i - growth_interval))) = 0"
    using r by simp
  show "loss_scale (snd (state_after env sg bs (Suc i)))
      = 2 * loss_scale (snd (state_after env sg bs i))"
    using r by simp
  show "growth_tracker (snd (state_after env sg bs (Suc i))) = 0"
    using r by simp
qed

lemma demo_step_clean:
  assumes "0 < loss_scale gs"
  shows "scaled_step demo_ops (n, gs) False = (n + 1, GradScaler_update gs False)"
    and "\<not> step_overflows demo_ops (n, gs) False"
  using assms
  by (simp_all add: scaled_step_def step_overflows_def demo_ops_def GradScaler_step_def
      found_inf_def Let_def)

lemma demo_clean_run:
  assumes "n \<le> 1999"
  shows "state_after demo_ops (0, GradScaler_init) (replicate 2000 False) n
     = (n, \<lparr> loss_scale = 65536, growth_tracker = n \<rparr>)"
  using assms
proof (induction n)
  case 0
  show ?case by (simp add: state_after_0 GradScaler_init_def)
next
  case (Suc n)
  then have ih: "state_after demo_ops (0, GradScaler_init) (replicate 2000 False) n
     = (n, \<lparr> loss_scale = 65536, growth_tracker = n \<rparr>)" by simp
  have "Suc n \<noteq> growth_interval" using Suc.prems by (simp add: growth_interval_def)
  then show ?case using Suc.prems
    by (simp add: state_after_Suc ih demo_step_clean(1) GradScaler_update_def)
qed

lemma demo_growth:
  "state_after demo_ops (0, GradScaler_init) (replicate 2000 False) (Suc 1999)
     = (2000, \<lparr> loss_scale = 131072, growth_tracker = 0 \<rparr>)"
proof -
  have "state_after demo_ops (0, GradScaler_init) (replicate 2000 False) (Suc 1999)
      = scaled_step demo_ops (state_after demo_ops (0, GradScaler_init) (replicate 2000 False) 1999)
          (replicate 2000 False ! 1999)"
    by (rule state_after_Suc) simp
  then show ?thesis
    by (simp add: demo_clean_run demo_step_clean(1) GradScaler_update_def growth_interval_def)
qed

theorem loss_scale_adaptation_witness:
  "overflow_at demo_ops (0, GradScaler_init) [True] 0
   \<and> fst (state_after demo_ops (0, GradScaler_init) [True] (Suc 0)) = 0
   \<and> loss_scale (snd (state_after demo_ops (0, GradScaler_init) [True] (Suc 0))) = 32768
   \<and> growth_tracker (snd (state_after demo_ops (0, GradScaler_init) [True] (Suc 0))) = 0
   \<and> loss_scale (snd (state_after demo_ops (0, GradScaler_init) (replicate 2000 False) 1999))
        < loss_scale (snd (state_after demo_ops (0, GradScaler_init) (replicate 2000 False) (Suc 1999)))
   \<and> \<not> overflow_at demo_ops (0, GradScaler_init) (replicate 2000 False) 1999
   \<and> growth_tracker (snd (state_after demo_ops (0, GradScaler_init) (replicate 2000 False) 0)) = 0"
proof -
  have o: "overflow_at demo_ops (0, GradScaler_init) [True] 0"
    by (simp add: overflow_at_def state_after_0 step_overflows_def demo_ops_def found_inf_def)
  have s0: "state_after demo_ops (0, GradScaler_init) [True] 0 = (0, GradScaler_init)"
    by (simp add: state_after_0)
  have "fst (state_after demo_ops (0, GradScaler_init) [True] (Suc 0))
        = fst (state_after demo_ops (0, GradScaler_init) [True] 0)
      \<and> loss_scale (snd (state_after demo_ops (0, GradScaler_init) [True] (Suc 0)))
        = loss_scale (snd (state_after demo_ops (0, GradScaler_init) [True] 0)) / 2
      \<and> growth_tracker (snd (state_after demo_ops (0, GradScaler_init) [True] (Suc 0))) = 0"
    using loss_scale_adaptation [of "(0, GradScaler_init)" 0 "[True]" demo_ops] o
    by simp
  then have a: "fst (state_after demo_ops (0, GradScaler_init) [True] (Suc 0)) = 0
      \<and> loss_scale (snd (state_after demo_ops (0, GradScaler_init) [True] (Suc 0))) = 32768
      \<and> growth_tracker (snd (state_after demo_ops (0, GradScaler_init) [True] (Suc 0))) = 0"
    unfolding s0 by (simp add: GradScaler_init_def)
  have g: "loss_scale (snd (state_after demo_ops (0, GradScaler_init) (replicate 2000 False) 1999))
        < loss_scale (snd (state_after demo_ops (0, GradScaler_init) (replicate 2000 False) (Suc 1999)))"
    unfolding demo_growth demo_clean_run [OF order_refl] by simp
  have b: "\<not> overflow_at demo_ops (0, GradScaler_init) (replicate 2000 False) 1999
      \<and> growth_tracker (snd (state_after demo_ops (0, GradScaler_init) (replicate 2000 False) 0)) = 0"
    using loss_scale_adaptation [of "(0, GradScaler_init)" 1999 "replicate 2000 False" demo_ops] g
    by (simp add: growth_interval_def)
  show ?thesis using o a g b by blast
qed

section \<open>Attention probabilities\<close>

lemma sum_list_map_divide:
  "sum_list (map (\<lambda>x. f x / c) xs) = sum_list (map f xs) / (c::real)"
  by (induction xs) (simp_all add: add_divide_distrib)

lemma sum_list_exp_pos:
  assumes "v \<noteq> []"
  shows "0 < sum_list (map exp (v::real list))"
  using assms
proof (induction v)
  case Nil
  then show ?case by simp
next
  case (Cons x v)
  have "0 \<le> sum_list (map exp v)"
    by (rule sum_list_nonneg) auto
  moreover have "0 < exp x" by simp
  ultimately show ?case by (simp add: add_pos_nonneg)
qed

lemma softmax_distribution:
  assumes "v \<noteq> []"
  shows "length (softmax v) = length v"
    and "\<forall>p \<in> set (softmax v). 0 \<le> p"
    and "sum_list (softmax v) = 1"
proof -
  have s: "0 < sum_list (map exp v)" by (rule sum_list_exp_pos [OF assms])
  show "length (softmax v) = length v" by (simp add: softmax_def)
  show "\<forall>p \<in> set (softmax v). 0 \<le> p"
    using s by (auto simp: softmax_def intro!: divide_nonneg_nonneg less_imp_le)
  show "sum_list (softmax v) = 1"
    using s by (simp add: softmax_def sum_list_map_divide)
qed

lemma split_heads_nth:
  assumes "j < h"
  shows "length (split_heads h t) = h" and "length (split_heads h t ! j) = length t"
  using assms by (simp_all add: split_heads_def)

lemma Attention_probs_row:
  assumes "b < length x" "j < attn_heads a" "i < length (x ! b)"
  shows "length (Attention_probs a x) = length x"
    and "length (Attention_probs a x ! b) = attn_heads a"
    and "length (Attention_probs a x ! b ! j) = length (x ! b)"
    and "\<exists>v. length v = length (x ! b) \<and> Attention_probs a x ! b ! j ! i = softmax v"
proof -
  let ?qkv = "map (Linear_forward (to_qkv a)) (x ! b)"
  let ?q = "split_heads (attn_heads a) (map (chunk3_piece 0) ?qkv)"
  let ?k = "split_heads (attn_heads a) (map (chunk3_piece 1) ?qkv)"
  have pb: "Attention_probs a x ! b = map2 (attention_rows (scale a)) ?q ?k"
    using assms(1) by (simp add: Attention_probs_def Let_def)
  have lq: "length ?q = attn_heads a" "length ?k = attn_heads a"
    by (simp_all add: split_heads_def)
  have lqj: "length (?q ! j) = length (x ! b)" "length (?k ! j) = length (x ! b)"
    using assms(2) by (simp_all add: split_heads_nth)
  have pbj: "Attention_probs a x ! b ! j = attention_rows (scale a) (?q ! j) (?k ! j)"
    using assms(2) lq by (simp add: pb)
  show "length (Attention_probs a x) = length x"
    by (simp add: Attention_probs_def)
  show "length (Attention_probs a x ! b) = attn_heads a"
    using lq by (simp add: pb)
  show "length (Attention_probs a x ! b ! j) = length (x ! b)"
    using lqj by (simp add: pbj attention_rows_def)
  have "Attention_probs a x ! b ! j ! i
      = softmax (map (\<lambda>kj. dot (?q ! j ! i) kj * scale a) (?k ! j))"
    using assms(3) lqj by (simp add: pbj attention_rows_def)
  moreover have "length (map (\<lambda>kj. dot (?q ! j ! i) kj * scale a) (?k ! j)) = length (x ! b)"
    using lqj by simp
  ultimately show "\<exists>v. length v = length (x ! b) \<and> Attention_probs a x ! b ! j ! i = softmax v"
    by blast
qed

text \<open>
  C5.  For every batch element \<open>b\<close>, head \<open>j\<close> and query \<open>i\<close> of
  \<^verbatim>\<open>Attention.forward\<close>, the row of attention probabilities has one entry per key,
  every entry is non-negative, and the entries sum to 1 (over the reals).
\<close>

theorem attention_rows_are_distributions:
  assumes "b < length x" "j < attn_heads a" "i < length (x ! b)"
  shows "length (Attention_probs a x) = length x
    \<and> length (Attention_probs a x ! b) = attn_heads a
    \<and> length (Attention_probs a x ! b ! j) = length (x ! b)
    \<and> length (Attention_probs a x ! b ! j ! i) = length (x ! b)
    \<and> (\<forall>p \<in> set (Attention_probs a x ! b ! j ! i). 0 \<le> p)
    \<and> sum_list (Attention_probs a x ! b ! j ! i) = 1"
proof -
  obtain v where v: "length v = length (x ! b)" "Attention_probs a x ! b ! j ! i = softmax v"
    using Attention_probs_row(4) [OF assms] by blast
  have "v \<noteq> []" using v(1) assms(3) by auto
  then show ?thesis
    using softmax_distribution [of v] v Attention_probs_row(1-3) [OF assms] by simp
qed

theorem attention_rows_are_distributions_witness:
  "length (Attention_probs demo_attention [[[0], [1]]] ! 0 ! 0 ! 1) = 2
   \<and> sum_list (Attention_probs demo_attention [[[0], [1]]] ! 0 ! 0 ! 1) = 1"
  using attention_rows_are_distributions [of 0 "[[[0], [1]]]" 0 demo_attention 1]
  by (simp add: demo_attention_def)

section \<open>Blocks and determinism\<close>

lemma map2_flip: "map2 f xs ys = map2 (\<lambda>a b. f b a) ys xs"
proof (induction xs arbitrary: ys)
  case Nil
  show ?case by simp
next
  case (Cons x xs)
  show ?case by (cases ys) (simp_all add: Cons.IH)
qed

lemma map2_commute:
  assumes "\<And>a b. f a b = f b a"
  shows "map2 f xs ys = map2 f ys xs"
proof -
  have "(\<lambda>a b. f b a) = f"
    by (intro ext) (rule assms)
  then show ?thesis using map2_flip [of f xs ys] by simp
qed

lemma tadd_commute: "tadd x y = tadd y x"
proof -
  have 1: "map2 (+) u v = map2 (+) v u" for u v :: vec
    by (rule map2_commute) (rule add.commute)
  have 2: "map2 (map2 (+)) u v = map2 (map2 (+)) v u" for u v :: mat
    by (rule map2_commute) (rule 1)
  show ?thesis
    unfolding tadd_def by (rule map2_commute) (rule 2)
qed

lemma layers_forward_block:
  "layers_forward g tr \<nu> ((PreNorm n1 (AttentionFn a), PreNorm n2 (FeedForwardFn f)) # ls) xk
     = layers_forward g tr \<nu> ls (prenorm_block_spec g tr \<nu> n1 a n2 f xk)"
  by (simp add: prenorm_block_spec_def PreNorm_forward_def Let_def tadd_commute)

lemma layer_wf_map:
  "layer_wf d h mlp_d p (map_prod (map_PreNorm \<theta>) (map_PreNorm \<theta>) l) = layer_wf d h mlp_d p l"
proof -
  obtain n1 f1 n2 f2 where l: "l = (PreNorm n1 f1, PreNorm n2 f2)"
    by (metis PreNorm.exhaust surj_pair)
  have a: "(\<exists>a. map_sublayer \<theta> f1 = AttentionFn a \<and> attention_wf d h p a)
      = (\<exists>a. f1 = AttentionFn a \<and> attention_wf d h p a)"
    by (cases f1) (auto simp: attention_wf_def Attention.map_sel Linear.map_sel)
  have f: "(\<exists>f. map_sublayer \<theta> f2 = FeedForwardFn f \<and> feedforward_wf d mlp_d p f)
      = (\<exists>f. f2 = FeedForwardFn f \<and> feedforward_wf d mlp_d p f)"
    by (cases f2) (auto simp: feedforward_wf_def FeedForward.map_sel Linear.map_sel)
  show ?thesis
    by (simp add: l layer_wf_def LayerNorm.map_sel a f)
qed

lemma Dropout_forward_p0:
  "drop_p d = 0 \<Longrightarrow> Dropout_forward tr \<nu> d xk = xk"
  by (cases xk) (simp add: Dropout_forward_def)

lemma FeedForward_forward_p0:
  assumes "feedforward_wf d mlp_d 0 f"
  shows "FeedForward_forward g tr \<nu> f xk = FeedForward_forward g tr \<nu>' f xk"
  using assms
  by (cases xk) (simp add: FeedForward_forward_def feedforward_wf_def Dropout_forward_p0 Let_def)

lemma Attention_forward_p0:
  assumes "attention_wf d h 0 a"
  shows "Attention_forward tr \<nu> a xk = Attention_forward tr \<nu>' a xk"
  using assms
  by (cases xk) (simp add: Attention_forward_def attention_wf_def Dropout_forward_p0 Let_def)

lemma layers_forward_p0:
  assumes "\<forall>l \<in> set ls. layer_wf d h mlp_d 0 l"
  shows "layers_forward g tr \<nu> ls xk = layers_forward g tr \<nu>' ls xk"
  using assms
proof (induction ls arbitrary: xk)
  case Nil
  show ?case by simp
next
  case (Cons l ls)
  obtain pa pf where l: "l = (pa, pf)" by (cases l)
  from Cons.prems l obtain a f where
    a: "fn pa = AttentionFn a" "attention_wf d h 0 a" and
    f: "fn pf = FeedForwardFn f" "feedforward_wf d mlp_d 0 f"
    by (auto simp: layer_wf_def)
  have pa: "PreNorm_forward g tr \<nu> pa y = PreNorm_forward g tr \<nu>' pa y" for y
    by (simp add: PreNorm_forward_def a(1) Attention_forward_p0 [OF a(2), of tr \<nu> _ \<nu>'])
  have pf: "PreNorm_forward g tr \<nu> pf y = PreNorm_forward g tr \<nu>' pf y" for y
    by (simp add: PreNorm_forward_def f(1) FeedForward_forward_p0 [OF f(2), of g tr \<nu> _ \<nu>'])
  have r: "layers_forward g tr \<nu> ls y = layers_forward g tr \<nu>' ls y" for y
    using Cons by simp
  show ?case
    by (simp add: l pa pf r Let_def)
qed

lemma ViT_forward_p0:
  assumes "ViT_init c k = Inr (m, k')" "dropout c = 0" "emb_dropout c = 0"
  shows "ViT_forward g tr \<nu> (map_ViT \<theta> m) img = ViT_forward g tr \<nu>' (map_ViT \<theta> m) img"
proof -
  have d: "drop_p (vit_dropout (map_ViT \<theta> m)) = 0"
    using ViT_init_rest(5) [OF assms(1)] assms(3) by (simp add: ViT.map_sel)
  have "\<forall>l \<in> set (layers (transformer m)). layer_wf (dim c) (heads c) (mlp_dim c) 0 l"
    using ViT_init_rest(1) [OF assms(1)] assms(2) by simp
  then have w: "\<forall>l \<in> set (layers (transformer (map_ViT \<theta> m))).
      layer_wf (dim c) (heads c) (mlp_dim c) 0 l"
    by (auto simp: ViT.map_sel Transformer.map_sel layer_wf_map)
  have t: "Transformer_forward g tr \<nu> (transformer (map_ViT \<theta> m)) y
      = Transformer_forward g tr \<nu>' (transformer (map_ViT \<theta> m)) y" for y
    unfolding Transformer_forward_def by (rule layers_forward_p0 [OF w])
  show ?thesis
    by (simp add: ViT_forward_def Dropout_forward_p0 [OF d] t)
qed

lemma Transformer_layers_norm_ids:
  assumes "Transformer_layers d h mlp_d p n k = Inr (ls, k')"
  shows "k \<le> k' \<and> distinct (layer_norm_ids (Transformer ls))
     \<and> set (layer_norm_ids (Transformer ls)) \<subseteq> {k..<k'}"
  using assms
proof (induction n arbitrary: k ls)
  case 0
  then show ?case by (simp add: layer_norm_ids_def)
next
  case (Suc n)
  from Suc.prems obtain a k1 f k3 ls' where
    a: "Attention_init d h p k = Inr (a, k1)" and
    f: "FeedForward_init d mlp_d p (k1 + 2) = Inr (f, k3)" and
    r: "Transformer_layers d h mlp_d p n (k3 + 2) = Inr (ls', k')" and
    ls: "ls = (PreNorm (LayerNorm d (Parameter [d] k1) (Parameter [d] (k1 + 1))) (AttentionFn a),
               PreNorm (LayerNorm d (Parameter [d] k3) (Parameter [d] (k3 + 1))) (FeedForwardFn f)) # ls'"
    by (auto simp: PreNorm_init_def nn_LayerNorm_def split: sum.splits prod.splits)
  have k1: "k \<le> k1" using a
    by (auto simp: Attention_init_def nn_Linear_def split: sum.splits)
  have k3: "k1 + 2 \<le> k3" using f
    by (auto simp: FeedForward_init_def nn_Linear_def split: sum.splits)
  note ih = Suc.IH [OF r]
  have e: "layer_norm_ids (Transformer ls)
      = [k1, k1 + 1, k3, k3 + 1] @ layer_norm_ids (Transformer ls')"
    by (simp add: ls layer_norm_ids_def PreNorm_norm_ids_def)
  show ?case
    unfolding e using ih k1 k3 by (auto simp: subset_iff)
qed

lemma layers_forward_foldl:
  "layers_forward g tr \<nu> ls xk = foldl (\<lambda>y l. layers_forward g tr \<nu> [l] y) xk ls"
proof (induction ls arbitrary: xk)
  case Nil
  show ?case by simp
next
  case (Cons l ls)
  obtain pa pf where l: "l = (pa, pf)" by (cases l)
  show ?case by (simp add: l Cons.IH Let_def)
qed

lemma Transformer_layers_length:
  assumes "Transformer_layers d h mlp_d p n k = Inr (ls, k')"
  shows "length ls = n"
  using assms by (induction n arbitrary: k ls) (auto split: sum.splits prod.splits)

lemma layer_norm_ids_length: "length (layer_norm_ids t) = 4 * length (layers t)"
  by (simp add: layer_norm_ids_def PreNorm_norm_ids_def length_concat o_def sum_list_triv)

text \<open>
  C4.  In a transformer built by \<^verbatim>\<open>Transformer.__init__\<close>, with any weights
  \<open>\<theta>\<close>: the forward pass applies the blocks in order; every block is a
  \<open>PreNorm\<close> around an attention followed by a \<open>PreNorm\<close> around a feed-forward, and on
  every input it computes \<open>x1 = x + SelfAttention(LayerNorm(x))\<close> and then
  \<open>x2 = x1 + FeedForward(LayerNorm(x1))\<close>, the normalization being applied to the
  input of each sub-layer; and the layer-norm scale and shift parameters of the blocks
  are pairwise distinct objects, four per block.
\<close>

theorem transformer_blocks_are_prenorm:
  assumes "Transformer_init d dep h mlp_d p k = Inr (t, k')"
  shows "(\<forall>xk. Transformer_forward g tr \<nu> (map_Transformer \<theta> t) xk
            = foldl (\<lambda>y l. layers_forward g tr \<nu> [l] y) xk (layers (map_Transformer \<theta> t)))
     \<and> (\<forall>l \<in> set (layers (map_Transformer \<theta> t)). \<exists>n1 a n2 f.
            l = (PreNorm n1 (AttentionFn a), PreNorm n2 (FeedForwardFn f))
          \<and> (\<forall>xk. layers_forward g tr \<nu> [l] xk = prenorm_block_spec g tr \<nu> n1 a n2 f xk))
     \<and> length (layers t) = dep
     \<and> length (layer_norm_ids t) = 4 * dep
     \<and> distinct (layer_norm_ids t)"
proof -
  from assms obtain ls where
    ls: "Transformer_layers d h mlp_d p dep k = Inr (ls, k')" and t: "t = Transformer ls"
    by (auto simp: Transformer_init_def split: sum.splits)
  have wf: "\<forall>l \<in> set (layers (map_Transformer \<theta> t)). layer_wf d h mlp_d p l"
    using Transformer_layers_wf [OF ls] by (auto simp: t layer_wf_map)
  have blocks: "\<forall>l \<in> set (layers (map_Transformer \<theta> t)). \<exists>n1 a n2 f.
            l = (PreNorm n1 (AttentionFn a), PreNorm n2 (FeedForwardFn f))
          \<and> (\<forall>xk. layers_forward g tr \<nu> [l] xk = prenorm_block_spec g tr \<nu> n1 a n2 f xk)"
  proof
    fix l assume "l \<in> set (layers (map_Transformer \<theta> t))"
    then have "layer_wf d h mlp_d p l" using wf by blast
    then obtain a f where "fn (fst l) = AttentionFn a" "fn (snd l) = FeedForwardFn f"
      by (auto simp: layer_wf_def)
    then have "l = (PreNorm (norm (fst l)) (AttentionFn a), PreNorm (norm (snd l)) (FeedForwardFn f))"
      by (metis PreNorm.collapse prod.collapse)
    moreover have "\<forall>xk. layers_forward g tr \<nu>
          [(PreNorm (norm (fst l)) (AttentionFn a), PreNorm (norm (snd l)) (FeedForwardFn f))] xk
        = prenorm_block_spec g tr \<nu> (norm (fst l)) a (norm (snd l)) f xk"
      using layers_forward_block [of g tr \<nu> _ a _ f "[]"] by simp
    ultimately show "\<exists>n1 a n2 f.
            l = (PreNorm n1 (AttentionFn a), PreNorm n2 (FeedForwardFn f))
          \<and> (\<forall>xk. layers_forward g tr \<nu> [l] xk = prenorm_block_spec g tr \<nu> n1 a n2 f xk)"
      by metis
  qed
  have len: "length (layers t) = dep"
    using Transformer_layers_length [OF ls] by (simp add: t)
  have "distinct (layer_norm_ids t)"
    using Transformer_layers_norm_ids [OF ls] by (simp add: t)
  moreover have "\<forall>xk. Transformer_forward g tr \<nu> (map_Transformer \<theta> t) xk
            = foldl (\<lambda>y l. layers_forward g tr \<nu> [l] y) xk (layers (map_Transformer \<theta> t))"
    by (simp add: Transformer_forward_def layers_forward_foldl [symmetric])
  ultimately show ?thesis
    using blocks len by (simp add: layer_norm_ids_length)
qed

theorem transformer_blocks_are_prenorm_witness:
  "\<exists>t k'. Transformer_init 512 6 8 1024 0.1 0 = Inr (t, k')
     \<and> length (layers t) = 6 \<and> length (layer_norm_ids t) = 24 \<and> distinct (layer_norm_ids t)"
proof -
  have "Transformer_layers 512 8 1024 0.1 6 0 \<noteq> Inl e" for e
    by (rule Transformer_layers_not_Inl) simp_all
  then obtain t k' where t: "Transformer_init 512 6 8 1024 0.1 0 = Inr (t, k')"
    by (cases "Transformer_layers 512 8 1024 0.1 6 0") (auto simp: Transformer_init_def)
  show ?thesis
    using transformer_blocks_are_prenorm [OF t] t by auto
qed

text \<open>
  C9.  With both dropout probabilities 0 and fixed weights \<open>\<theta>\<close>, the logits do not
  depend on the random source: two forward passes on the same input, each with its own
  random source, return the same output (in training mode as in evaluation mode).
\<close>

theorem forward_deterministic_without_dropout:
  assumes "ViT_init c k = Inr (m, k')" "dropout c = 0" "emb_dropout c = 0"
  shows "ViT_forward g training \<nu> (map_ViT \<theta> m) img
       = ViT_forward g training \<nu>' (map_ViT \<theta> m) img"
  by (rule ViT_forward_p0 [OF assms])

theorem forward_deterministic_without_dropout_witness:
  "\<exists>m k'. ViT_init (script_config \<lparr> dropout := 0, emb_dropout := 0 \<rparr>) 0 = Inr (m, k')
     \<and> ViT_forward (\<lambda>x. x) True (\<lambda>k b t j. True) (map_ViT (\<lambda>i. []) m) [[[[0]]]]
       = ViT_forward (\<lambda>x. x) True (\<lambda>k b t j. False) (map_ViT (\<lambda>i. []) m) [[[[0]]]]"
proof -
  have "\<not> isl (ViT_init (script_config \<lparr> dropout := 0, emb_dropout := 0 \<rparr>) 0)"
    by (rule ViT_init_succeeds) (simp_all add: script_config_def)
  then obtain m k' where
    m: "ViT_init (script_config \<lparr> dropout := 0, emb_dropout := 0 \<rparr>) 0 = Inr (m, k')"
    by (cases "ViT_init (script_config \<lparr> dropout := 0, emb_dropout := 0 \<rparr>) 0") auto
  have "ViT_forward (\<lambda>x. x) True (\<lambda>k b t j. True) (map_ViT (\<lambda>i. []) m) [[[[0]]]]
       = ViT_forward (\<lambda>x. x) True (\<lambda>k b t j. False) (map_ViT (\<lambda>i. []) m) [[[[0]]]]"
    by (rule forward_deterministic_without_dropout [OF m]) simp_all
  then show ?thesis using m by blast
qed

section \<open>Checkpoints: names and identities\<close>

lemma names_prefixed: "map fst (prefixed pre xs) = map ((@) pre) (map fst xs)"
  by (simp add: prefixed_def)

lemma params_prefixed: "map snd (prefixed pre xs) = map snd xs"
  by (simp add: prefixed_def)

lemma distinct_map_pre:
  "distinct (map ((@) pre) ns) = distinct ns"
  "distinct (map ((@) pre \<circ> fst) xs) = distinct (map fst xs)"
proof -
  show 1: "distinct (map ((@) pre) ns) = distinct ns" for ns :: "'a list list"
    by (simp add: distinct_map inj_on_def)
  have "map ((@) pre \<circ> fst) xs = map ((@) pre) (map fst xs)" by simp
  then show "distinct (map ((@) pre \<circ> fst) xs) = distinct (map fst xs)"
    by (simp only: 1)
qed

lemma Linear_names_distinct: "distinct (map fst (Linear_named l))"
  by (simp add: Linear_named_def split: option.splits)

lemma FeedForward_names_distinct: "distinct (map fst (FeedForward_named f))"
  by (auto simp: FeedForward_named_def names_prefixed distinct_map_pre Linear_names_distinct)

lemma Attention_names_distinct: "distinct (map fst (Attention_named a))"
  by (auto simp: Attention_named_def names_prefixed distinct_map_pre Linear_names_distinct)

lemma sublayer_names_distinct: "distinct (map fst (sublayer_named s))"
  by (cases s) (simp_all add: Attention_names_distinct FeedForward_names_distinct)

lemma PreNorm_names_distinct: "distinct (map fst (PreNorm_named pn))"
  by (auto simp: PreNorm_named_def names_prefixed distinct_map_pre LayerNorm_named_def
      sublayer_names_distinct)

lemma layers_names_form:
  "n \<in> set (map fst (layers_named i ls)) \<Longrightarrow> \<exists>j r. n = Attr ''layers'' # Idx j # r \<and> i \<le> j"
proof (induction ls arbitrary: i)
  case Nil
  then show ?case by simp
next
  case (Cons l ls)
  from Cons.prems consider
    (a) "n \<in> set (map ((@) [Attr ''layers'', Idx i, Idx 0]) (map fst (PreNorm_named (fst l))))"
    | (b) "n \<in> set (map ((@) [Attr ''layers'', Idx i, Idx 1]) (map fst (PreNorm_named (snd l))))"
    | (c) "n \<in> set (map fst (layers_named (Suc i) ls))"
    by (auto simp: names_prefixed)
  then show ?case
  proof cases
    case a then show ?thesis by auto
  next
    case b then show ?thesis by auto
  next
    case c
    then obtain j r where "n = Attr ''layers'' # Idx j # r" "Suc i \<le> j"
      using Cons.IH by blast
    then show ?thesis by auto
  qed
qed

lemma layers_names_distinct: "distinct (map fst (layers_named i ls))"
proof (induction ls arbitrary: i)
  case Nil
  show ?case by simp
next
  case (Cons l ls)
  let ?A = "map ((@) [Attr ''layers'', Idx i, Idx 0]) (map fst (PreNorm_named (fst l)))"
  let ?B = "map ((@) [Attr ''layers'', Idx i, Idx 1]) (map fst (PreNorm_named (snd l)))"
  let ?C = "map fst (layers_named (Suc i) ls)"
  have e: "map fst (layers_named i (l # ls)) = ?A @ ?B @ ?C"
    by (simp add: names_prefixed)
  have dA: "distinct ?A" and dB: "distinct ?B"
    by (simp_all only: distinct_map_pre(1) PreNorm_names_distinct)
  have dC: "distinct ?C" by (rule Cons.IH)
  have AB: "set ?A \<inter> set ?B = {}" by auto
  have AC: "set ?A \<inter> set ?C = {}"
  proof (rule ccontr)
    assume "set ?A \<inter> set ?C \<noteq> {}"
    then obtain n where n: "n \<in> set ?A" "n \<in> set ?C" by blast
    from layers_names_form [OF n(2)] obtain j r where "n = Attr ''layers'' # Idx j # r" "Suc i \<le> j"
      by blast
    then show False using n(1) by auto
  qed
  have BC: "set ?B \<inter> set ?C = {}"
  proof (rule ccontr)
    assume "set ?B \<inter> set ?C \<noteq> {}"
    then obtain n where n: "n \<in> set ?B" "n \<in> set ?C" by blast
    from layers_names_form [OF n(2)] obtain j r where "n = Attr ''layers'' # Idx j # r" "Suc i \<le> j"
      by blast
    then show False using n(1) by auto
  qed
  show ?case
    unfolding e using dA dB dC AB AC BC by (simp only: distinct_append set_append) blast
qed

lemma ViT_names_distinct: "distinct (map fst (ViT_named m))"
proof -
  let ?P = "map ((@) [Attr ''to_patch_embedding'', Idx 0]) (map fst (Conv2d_named (to_patch_embedding m)))"
  let ?T = "map ((@) [Attr ''transformer'']) (map fst (Transformer_named (transformer m)))"
  let ?H0 = "map ((@) [Attr ''mlp_head'', Idx 0]) (map fst (LayerNorm_named (mlp_head0 m)))"
  let ?H1 = "map ((@) [Attr ''mlp_head'', Idx 1]) (map fst (Linear_named (mlp_head1 m)))"
  have e: "map fst (ViT_named m)
      = [[Attr ''pos_embedding''], [Attr ''cls_token'']] @ ?P @ ?T @ ?H0 @ ?H1"
    by (simp add: ViT_named_def names_prefixed)
  have d: "distinct ?P" "distinct ?T" "distinct ?H0" "distinct ?H1"
    by (simp_all add: distinct_map_pre Conv2d_named_def Transformer_named_def
        layers_names_distinct LayerNorm_named_def Linear_names_distinct)
  have i: "set ?P \<inter> set ?T = {}" "set ?P \<inter> set ?H0 = {}" "set ?P \<inter> set ?H1 = {}"
    "set ?T \<inter> set ?H0 = {}" "set ?T \<inter> set ?H1 = {}" "set ?H0 \<inter> set ?H1 = {}"
    by auto
  have h: "[Attr ''pos_embedding''] \<notin> set ?P \<union> set ?T \<union> set ?H0 \<union> set ?H1"
    "[Attr ''cls_token''] \<notin> set ?P \<union> set ?T \<union> set ?H0 \<union> set ?H1"
    by auto
  show ?thesis
    unfolding e using d i h by (simp only: distinct_append set_append distinct.simps list.set) blast
qed

lemma nn_LayerNorm_shift:
  "nn_LayerNorm d (j + k)
     = map_prod (map_LayerNorm (\<lambda>i. i + k)) (\<lambda>i. i + k) (nn_LayerNorm d j)"
  by (simp add: nn_LayerNorm_def)

lemma nn_Linear_shift:
  "nn_Linear a b c (j + k)
     = map_prod (map_Linear (\<lambda>i. i + k)) (\<lambda>i. i + k) (nn_Linear a b c j)"
  by (simp add: nn_Linear_def)

lemma nn_Conv2d_shift:
  "nn_Conv2d a b c d (j + k)
     = map_prod (map_Conv2d (\<lambda>i. i + k)) (\<lambda>i. i + k) (nn_Conv2d a b c d j)"
  by (simp add: nn_Conv2d_def)

lemma PreNorm_init_shift:
  "PreNorm_init d (map_sublayer (\<lambda>i. i + k) f) (j + k)
     = map_prod (map_PreNorm (\<lambda>i. i + k)) (\<lambda>i. i + k) (PreNorm_init d f j)"
  by (simp add: PreNorm_init_def nn_LayerNorm_def)

lemma Attention_init_shift:
  "Attention_init d h p (j + k)
     = map_sum id (map_prod (map_Attention (\<lambda>i. i + k)) (\<lambda>i. i + k)) (Attention_init d h p j)"
  by (simp add: Attention_init_def nn_Linear_def split: sum.splits)

lemma FeedForward_init_shift:
  "FeedForward_init d m p (j + k)
     = map_sum id (map_prod (map_FeedForward (\<lambda>i. i + k)) (\<lambda>i. i + k)) (FeedForward_init d m p j)"
  by (simp add: FeedForward_init_def nn_Linear_def split: sum.splits)

lemma Transformer_layers_shift:
  "Transformer_layers d h m p n (j + k)
     = map_sum id (map_prod (map (map_prod (map_PreNorm (\<lambda>i. i + k)) (map_PreNorm (\<lambda>i. i + k))))
         (\<lambda>i. i + k)) (Transformer_layers d h m p n j)"
proof (induction n arbitrary: j)
  case 0
  show ?case by simp
next
  case (Suc n)
  show ?case
  proof (cases "Attention_init d h p j")
    case (Inl e)
    then show ?thesis by (simp add: Attention_init_shift)
  next
    case (Inr ak)
    obtain a k1 where ak: "ak = (a, k1)" by (cases ak)
    obtain pa k2 where pa: "PreNorm_init d (AttentionFn a) k1 = (pa, k2)"
      by (cases "PreNorm_init d (AttentionFn a) k1")
    have pa': "PreNorm_init d (AttentionFn (map_Attention (\<lambda>i. i + k) a)) (k1 + k)
        = (map_PreNorm (\<lambda>i. i + k) pa, k2 + k)"
      using PreNorm_init_shift [of d k "AttentionFn a" k1] by (simp add: pa)
    show ?thesis
    proof (cases "FeedForward_init d m p k2")
      case (Inl e)
      then show ?thesis by (simp add: Attention_init_shift Inr ak pa pa' FeedForward_init_shift)
    next
      case f: (Inr fk)
      obtain f k3 where fk: "fk = (f, k3)" by (cases fk)
      obtain pf k4 where pf: "PreNorm_init d (FeedForwardFn f) k3 = (pf, k4)"
        by (cases "PreNorm_init d (FeedForwardFn f) k3")
      have pf': "PreNorm_init d (FeedForwardFn (map_FeedForward (\<lambda>i. i + k) f)) (k3 + k)
          = (map_PreNorm (\<lambda>i. i + k) pf, k4 + k)"
        using PreNorm_init_shift [of d k "FeedForwardFn f" k3] by (simp add: pf)
      show ?thesis
        by (cases "Transformer_layers d h m p n k4")
          (auto simp: Attention_init_shift Inr ak pa pa' FeedForward_init_shift f fk pf pf' Suc.IH)
    qed
  qed
qed

lemma ViT_init_shift:
  "ViT_init c (j + k)
     = map_sum id (map_prod (map_ViT (\<lambda>i. i + k)) (\<lambda>i. i + k)) (ViT_init c j)"
proof -
  have t: "Transformer_init d dep h m p (i + k)
      = map_sum id (map_prod (map_Transformer (\<lambda>i. i + k)) (\<lambda>i. i + k))
          (Transformer_init d dep h m p i)" for d dep h m p i
    by (cases "Transformer_layers d h m p dep i")
      (auto simp: Transformer_init_def Transformer_layers_shift)
  have t2: "Transformer_init d dep h m p (Suc (Suc (j + k)))
      = map_sum id (map_prod (map_Transformer (\<lambda>i. i + k)) (\<lambda>i. i + k))
          (Transformer_init d dep h m p (Suc (Suc j)))" for d dep h m p
    using t [of d dep h m p "Suc (Suc j)"] by simp
  show ?thesis
    by (cases "Transformer_init (dim c) (depth c) (heads c) (mlp_dim c) (dropout c) (Suc (Suc (Suc (Suc j))))")
     (auto simp: ViT_init_def py_mod_def py_floordiv_def nn_Conv2d_def nn_Dropout_def Let_def
      nn_LayerNorm_def nn_Linear_def t [of _ _ _ _ _ "Suc (Suc (Suc (Suc j)))", simplified]
      split: sum.splits)
qed

lemma prefixed_relabel:
  "prefixed pre (map (\<lambda>np. (fst np, F (snd np))) xs) = map (\<lambda>np. (fst np, F (snd np))) (prefixed pre xs)"
  by (simp add: prefixed_def)

lemma LayerNorm_named_map:
  "LayerNorm_named (map_LayerNorm f l) = map (\<lambda>np. (fst np, map_Parameter f (snd np))) (LayerNorm_named l)"
  by (cases l) (simp add: LayerNorm_named_def)

lemma Linear_named_map:
  "Linear_named (map_Linear f l) = map (\<lambda>np. (fst np, map_Parameter f (snd np))) (Linear_named l)"
  by (cases l) (simp add: Linear_named_def split: option.splits)

lemma Conv2d_named_map:
  "Conv2d_named (map_Conv2d f l) = map (\<lambda>np. (fst np, map_Parameter f (snd np))) (Conv2d_named l)"
  by (cases l) (simp add: Conv2d_named_def)

lemma FeedForward_named_map:
  "FeedForward_named (map_FeedForward f l)
     = map (\<lambda>np. (fst np, map_Parameter f (snd np))) (FeedForward_named l)"
  by (cases l) (simp add: FeedForward_named_def Linear_named_map prefixed_relabel)

lemma Attention_named_map:
  "Attention_named (map_Attention f l)
     = map (\<lambda>np. (fst np, map_Parameter f (snd np))) (Attention_named l)"
  by (cases l) (simp add: Attention_named_def Linear_named_map prefixed_relabel)

lemma sublayer_named_map:
  "sublayer_named (map_sublayer f l)
     = map (\<lambda>np. (fst np, map_Parameter f (snd np))) (sublayer_named l)"
  by (cases l) (simp_all add: Attention_named_map FeedForward_named_map)

lemma PreNorm_named_map:
  "PreNorm_named (map_PreNorm f l)
     = map (\<lambda>np. (fst np, map_Parameter f (snd np))) (PreNorm_named l)"
  by (cases l) (simp add: PreNorm_named_def LayerNorm_named_map sublayer_named_map prefixed_relabel)

lemma layers_named_map:
  "layers_named i (map (map_prod (map_PreNorm f) (map_PreNorm f)) ls)
     = map (\<lambda>np. (fst np, map_Parameter f (snd np))) (layers_named i ls)"
  by (induction ls arbitrary: i) (simp_all add: PreNorm_named_map prefixed_relabel)

lemma ViT_named_map:
  "ViT_named (map_ViT f m) = map (\<lambda>np. (fst np, map_Parameter f (snd np))) (ViT_named m)"
proof (cases m)
  case (ViT ps d conv pos cls dr tr n0 l1)
  obtain ls where tr: "tr = Transformer ls" by (cases tr)
  show ?thesis
    by (simp add: ViT tr ViT_named_def Conv2d_named_map Transformer_named_def layers_named_map
        LayerNorm_named_map Linear_named_map prefixed_relabel)
qed

lemma LayerNorm_map_cong:
  assumes "\<And>p. p \<in> set (map snd (LayerNorm_named l)) \<Longrightarrow> f (data p) = g (data p)"
  shows "map_LayerNorm f l = map_LayerNorm g l"
proof (cases l)
  case (LayerNorm n w b)
  have "f (data w) = g (data w)" "f (data b) = g (data b)"
    by (rule assms, simp add: LayerNorm LayerNorm_named_def)+
  then have "map_Parameter f w = map_Parameter g w" "map_Parameter f b = map_Parameter g b"
    by (cases w, simp, cases b, simp)
  then show ?thesis by (simp add: LayerNorm)
qed

lemma Linear_map_cong:
  assumes "\<And>p. p \<in> set (map snd (Linear_named l)) \<Longrightarrow> f (data p) = g (data p)"
  shows "map_Linear f l = map_Linear g l"
proof (cases l)
  case (Linear i out w b)
  have "f (data w) = g (data w)"
    by (rule assms) (simp add: Linear Linear_named_def)
  then have w: "map_Parameter f w = map_Parameter g w"
    by (cases w) simp
  show ?thesis
  proof (cases b)
    case None
    then show ?thesis by (simp add: Linear w)
  next
    case (Some bb)
    have "f (data bb) = g (data bb)"
      by (rule assms) (simp add: Linear Some Linear_named_def)
    then have "map_Parameter f bb = map_Parameter g bb"
      by (cases bb) simp
    then show ?thesis by (simp add: Linear Some w)
  qed
qed

lemma Conv2d_map_cong:
  assumes "\<And>p. p \<in> set (map snd (Conv2d_named l)) \<Longrightarrow> f (data p) = g (data p)"
  shows "map_Conv2d f l = map_Conv2d g l"
proof (cases l)
  case (Conv2d ic oc ks st w b)
  have "f (data w) = g (data w)" "f (data b) = g (data b)"
    by (rule assms, simp add: Conv2d Conv2d_named_def)+
  then have "map_Parameter f w = map_Parameter g w" "map_Parameter f b = map_Parameter g b"
    by (cases w, simp, cases b, simp)
  then show ?thesis by (simp add: Conv2d)
qed

lemma FeedForward_map_cong:
  assumes "\<And>p. p \<in> set (map snd (FeedForward_named l)) \<Longrightarrow> f (data p) = g (data p)"
  shows "map_FeedForward f l = map_FeedForward g l"
proof (cases l)
  case (FeedForward l0 d2 l3 d4)
  have "map_Linear f l0 = map_Linear g l0"
  proof (rule Linear_map_cong)
    fix p assume "p \<in> set (map snd (Linear_named l0))"
    then have "p \<in> set (map snd (FeedForward_named l))"
      by (simp add: FeedForward FeedForward_named_def params_prefixed)
    then show "f (data p) = g (data p)" by (rule assms)
  qed
  moreover have "map_Linear f l3 = map_Linear g l3"
  proof (rule Linear_map_cong)
    fix p assume "p \<in> set (map snd (Linear_named l3))"
    then have "p \<in> set (map snd (FeedForward_named l))"
      by (simp add: FeedForward FeedForward_named_def params_prefixed)
    then show "f (data p) = g (data p)" by (rule assms)
  qed
  ultimately show ?thesis by (simp add: FeedForward)
qed

lemma Attention_map_cong:
  assumes "\<And>p. p \<in> set (map snd (Attention_named l)) \<Longrightarrow> f (data p) = g (data p)"
  shows "map_Attention f l = map_Attention g l"
proof (cases l)
  case (Attention h sc qkv out dr)
  have "map_Linear f qkv = map_Linear g qkv"
  proof (rule Linear_map_cong)
    fix p assume "p \<in> set (map snd (Linear_named qkv))"
    then have "p \<in> set (map snd (Attention_named l))"
      by (simp add: Attention Attention_named_def params_prefixed)
    then show "f (data p) = g (data p)" by (rule assms)
  qed
  moreover have "map_Linear f out = map_Linear g out"
  proof (rule Linear_map_cong)
    fix p assume "p \<in> set (map snd (Linear_named out))"
    then have "p \<in> set (map snd (Attention_named l))"
      by (simp add: Attention Attention_named_def params_prefixed)
    then show "f (data p) = g (data p)" by (rule assms)
  qed
  ultimately show ?thesis by (simp add: Attention)
qed

lemma sublayer_map_cong:
  assumes "\<And>p. p \<in> set (map snd (sublayer_named l)) \<Longrightarrow> f (data p) = g (data p)"
  shows "map_sublayer f l = map_sublayer g l"
proof (cases l)
  case (AttentionFn a)
  have "map_Attention f a = map_Attention g a"
    by (rule Attention_map_cong) (rule assms, simp add: AttentionFn)
  then show ?thesis by (simp add: AttentionFn)
next
  case (FeedForwardFn ff)
  have "map_FeedForward f ff = map_FeedForward g ff"
    by (rule FeedForward_map_cong) (rule assms, simp add: FeedForwardFn)
  then show ?thesis by (simp add: FeedForwardFn)
qed

lemma PreNorm_map_cong:
  assumes "\<And>p. p \<in> set (map snd (PreNorm_named l)) \<Longrightarrow> f (data p) = g (data p)"
  shows "map_PreNorm f l = map_PreNorm g l"
proof (cases l)
  case (PreNorm n s)
  have "map_LayerNorm f n = map_LayerNorm g n"
  proof (rule LayerNorm_map_cong)
    fix p assume "p \<in> set (map snd (LayerNorm_named n))"
    then have "p \<in> set (map snd (PreNorm_named l))"
      by (simp add: PreNorm PreNorm_named_def params_prefixed)
    then show "f (data p) = g (data p)" by (rule assms)
  qed
  moreover have "map_sublayer f s = map_sublayer g s"
  proof (rule sublayer_map_cong)
    fix p assume "p \<in> set (map snd (sublayer_named s))"
    then have "p \<in> set (map snd (PreNorm_named l))"
      by (simp add: PreNorm PreNorm_named_def params_prefixed)
    then show "f (data p) = g (data p)" by (rule assms)
  qed
  ultimately show ?thesis by (simp add: PreNorm)
qed

lemma layers_map_cong:
  assumes "\<And>p. p \<in> set (map snd (layers_named i ls)) \<Longrightarrow> f (data p) = g (data p)"
  shows "map (map_prod (map_PreNorm f) (map_PreNorm f)) ls
       = map (map_prod (map_PreNorm g) (map_PreNorm g)) ls"
  using assms
proof (induction ls arbitrary: i)
  case Nil
  show ?case by simp
next
  case (Cons l ls)
  have "map_PreNorm f (fst l) = map_PreNorm g (fst l)"
  proof (rule PreNorm_map_cong)
    fix p assume "p \<in> set (map snd (PreNorm_named (fst l)))"
    then have "p \<in> set (map snd (layers_named i (l # ls)))"
      by (simp add: params_prefixed)
    then show "f (data p) = g (data p)" by (rule Cons.prems)
  qed
  moreover have "map_PreNorm f (snd l) = map_PreNorm g (snd l)"
  proof (rule PreNorm_map_cong)
    fix p assume "p \<in> set (map snd (PreNorm_named (snd l)))"
    then have "p \<in> set (map snd (layers_named i (l # ls)))"
      by (simp add: params_prefixed)
    then show "f (data p) = g (data p)" by (rule Cons.prems)
  qed
  moreover have "map (map_prod (map_PreNorm f) (map_PreNorm f)) ls
       = map (map_prod (map_PreNorm g) (map_PreNorm g)) ls"
  proof (rule Cons.IH [of "Suc i"])
    fix p assume "p \<in> set (map snd (layers_named (Suc i) ls))"
    then have "p \<in> set (map snd (layers_named i (l # ls)))"
      by simp
    then show "f (data p) = g (data p)" by (rule Cons.prems)
  qed
  ultimately show ?case by (cases l) simp
qed

lemma ViT_map_cong:
  assumes "\<And>p. p \<in> set (map snd (ViT_named m)) \<Longrightarrow> f (data p) = g (data p)"
  shows "map_ViT f m = map_ViT g m"
proof (cases m)
  case (ViT ps d conv pos cls dr tr n0 l1)
  obtain ls where tr: "tr = Transformer ls" by (cases tr)
  have "f (data pos) = g (data pos)" "f (data cls) = g (data cls)"
    by (rule assms, simp add: ViT ViT_named_def)+
  then have 1: "map_Parameter f pos = map_Parameter g pos" "map_Parameter f cls = map_Parameter g cls"
    by (cases pos, simp, cases cls, simp)
  have 2: "map_Conv2d f conv = map_Conv2d g conv"
  proof (rule Conv2d_map_cong)
    fix p assume "p \<in> set (map snd (Conv2d_named conv))"
    then have "p \<in> set (map snd (ViT_named m))"
      by (simp add: ViT ViT_named_def params_prefixed)
    then show "f (data p) = g (data p)" by (rule assms)
  qed
  have 3: "map (map_prod (map_PreNorm f) (map_PreNorm f)) ls
       = map (map_prod (map_PreNorm g) (map_PreNorm g)) ls"
  proof (rule layers_map_cong [of 0])
    fix p assume "p \<in> set (map snd (layers_named 0 ls))"
    then have "p \<in> set (map snd (ViT_named m))"
      by (simp add: ViT tr ViT_named_def params_prefixed Transformer_named_def)
    then show "f (data p) = g (data p)" by (rule assms)
  qed
  have 4: "map_LayerNorm f n0 = map_LayerNorm g n0"
  proof (rule LayerNorm_map_cong)
    fix p assume "p \<in> set (map snd (LayerNorm_named n0))"
    then have "p \<in> set (map snd (ViT_named m))"
      by (simp add: ViT ViT_named_def params_prefixed)
    then show "f (data p) = g (data p)" by (rule assms)
  qed
  have 5: "map_Linear f l1 = map_Linear g l1"
  proof (rule Linear_map_cong)
    fix p assume "p \<in> set (map snd (Linear_named l1))"
    then have "p \<in> set (map snd (ViT_named m))"
      by (simp add: ViT ViT_named_def params_prefixed)
    then show "f (data p) = g (data p)" by (rule assms)
  qed
  show ?thesis by (simp add: ViT tr 1 2 3 4 5)
qed

lemma load_params_val:
  assumes "\<And>np. np \<in> set nps \<Longrightarrow> map_of sd (fst np) = Some (shape (snd np), val (data (snd np)))"
  shows "load_params sd nps \<theta>
     = Inr (\<lambda>i. if i \<in> set (map (\<lambda>np. data (snd np)) nps) then val i else \<theta> i)"
  using assms
proof (induction nps arbitrary: \<theta>)
  case Nil
  show ?case by simp
next
  case (Cons np nps)
  have h: "map_of sd (fst np) = Some (shape (snd np), val (data (snd np)))"
    using Cons.prems by simp
  have "load_params sd nps (\<theta>(data (snd np) := val (data (snd np))))
     = Inr (\<lambda>i. if i \<in> set (map (\<lambda>np. data (snd np)) nps) then val i
                 else (\<theta>(data (snd np) := val (data (snd np)))) i)"
    using Cons.prems by (intro Cons.IH) simp
  then show ?case
    by (auto simp: h intro!: ext)
qed

lemma ViT_init_from_0:
  assumes "ViT_init c k = Inr (m, k')"
  shows "\<exists>m0 k0. ViT_init c 0 = Inr (m0, k0) \<and> m = map_ViT (\<lambda>i. i + k) m0"
proof -
  have "ViT_init c (0 + k)
      = map_sum id (map_prod (map_ViT (\<lambda>i. i + k)) (\<lambda>i. i + k)) (ViT_init c 0)"
    by (rule ViT_init_shift)
  then show ?thesis using assms
    by (cases "ViT_init c 0") auto
qed

lemma round_trip_weights:
  assumes "ViT_init c k1 = Inr (m1, k1')" "ViT_init c k2 = Inr (m2, k2')"
  shows "\<exists>\<theta>'. load_state_dict m2 (state_dict m1 \<theta>1) \<theta>2 = Inr \<theta>'
           \<and> map_ViT \<theta>' m2 = map_ViT \<theta>1 m1"
proof -
  obtain m0 k0 where m0: "ViT_init c 0 = Inr (m0, k0)" and m1: "m1 = map_ViT (\<lambda>i. i + k1) m0"
    using ViT_init_from_0 [OF assms(1)] by blast
  have m2: "m2 = map_ViT (\<lambda>i. i + k2) m0"
    using ViT_init_from_0 [OF assms(2)] m0 by auto
  let ?sd = "state_dict m1 \<theta>1"
  let ?val = "\<lambda>i. \<theta>1 (i - k2 + k1)"
  have sd: "?sd = map (\<lambda>np. (fst np, shape (snd np), \<theta>1 (data (snd np) + k1))) (ViT_named m0)"
    by (simp add: state_dict_def m1 ViT_named_map Parameter.map_sel o_def)
  have names: "map fst ?sd = map fst (ViT_named m0)"
    by (simp add: sd o_def)
  have names2: "map fst (ViT_named m2) = map fst (ViT_named m0)"
    by (simp add: m2 ViT_named_map o_def)
  have dist: "distinct (map fst ?sd)"
    unfolding names by (rule ViT_names_distinct)
  have look: "map_of ?sd (fst np) = Some (shape (snd np), ?val (data (snd np)))"
    if "np \<in> set (ViT_named m2)" for np
  proof -
    from that obtain np0 where np0: "np0 \<in> set (ViT_named m0)"
      and np: "np = (fst np0, map_Parameter (\<lambda>i. i + k2) (snd np0))"
      by (auto simp: m2 ViT_named_map)
    have "(fst np0, shape (snd np0), \<theta>1 (data (snd np0) + k1)) \<in> set ?sd"
      using np0 by (auto simp: sd)
    then have "map_of ?sd (fst np0) = Some (shape (snd np0), \<theta>1 (data (snd np0) + k1))"
      using dist by (rule map_of_is_SomeI [rotated])
    then show ?thesis
      by (simp add: np Parameter.map_sel)
  qed
  have keys: "list_all (\<lambda>e. fst e \<in> set (map fst (ViT_named m2))) ?sd"
  proof -
    have "\<forall>e \<in> set ?sd. fst e \<in> set (map fst ?sd)" by simp
    then show ?thesis unfolding names names2 [symmetric] by (simp add: list_all_iff)
  qed
  let ?\<theta>' = "\<lambda>i. if i \<in> set (map (\<lambda>np. data (snd np)) (ViT_named m2)) then ?val i else \<theta>2 i"
  have load: "load_state_dict m2 ?sd \<theta>2 = Inr ?\<theta>'"
    using keys load_params_val [of "ViT_named m2" ?sd ?val \<theta>2] look
    by (simp add: load_state_dict_def)
  have "map_ViT ?\<theta>' m2 = map_ViT (\<lambda>i. ?\<theta>' (i + k2)) m0"
    by (simp add: m2 ViT.map_comp o_def)
  also have "\<dots> = map_ViT (\<lambda>i. \<theta>1 (i + k1)) m0"
  proof (rule ViT_map_cong)
    fix p assume "p \<in> set (map snd (ViT_named m0))"
    then have "data p + k2 \<in> set (map (\<lambda>np. data (snd np)) (ViT_named m2))"
      by (auto simp: m2 ViT_named_map Parameter.map_sel image_iff intro!: bexI)
    then show "?\<theta>' (data p + k2) = \<theta>1 (data p + k1)" by simp
  qed
  also have "\<dots> = map_ViT \<theta>1 m1"
    by (simp add: m1 ViT.map_comp o_def)
  finally show ?thesis using load by blast
qed

text \<open>
  C8 (the checkpoint interface is modelled from the spec, for the model class of the
  script).  Saving the parameter mapping of a model and loading it into a freshly
  constructed model of the same configuration succeeds, and afterwards the two models
  return the same output on every input (with the same mode and random source).  The
  mapping has exactly the parameter names as keys.
\<close>

theorem checkpoint_round_trip:
  assumes "ViT_init c k1 = Inr (m1, k1')" "ViT_init c k2 = Inr (m2, k2')"
  shows "\<exists>\<theta>'. load_state_dict m2 (torch_load (torch_save (state_dict m1 \<theta>1))) \<theta>2 = Inr \<theta>'
     \<and> (\<forall>g training \<nu> img.
            ViT_forward g training \<nu> (map_ViT \<theta>' m2) img
          = ViT_forward g training \<nu> (map_ViT \<theta>1 m1) img)
     \<and> map fst (state_dict m1 \<theta>1) = map fst (ViT_named m1)"
proof -
  obtain \<theta>' where "load_state_dict m2 (state_dict m1 \<theta>1) \<theta>2 = Inr \<theta>'"
    "map_ViT \<theta>' m2 = map_ViT \<theta>1 m1"
    using round_trip_weights [OF assms] by blast
  then show ?thesis
    by (auto simp: torch_save_def torch_load_def state_dict_def o_def)
qed

theorem checkpoint_round_trip_witness:
  "\<exists>m1 k1' m2 k2' \<theta>'.
     ViT_init script_config 0 = Inr (m1, k1')
   \<and> ViT_init script_config 1000 = Inr (m2, k2')
   \<and> load_state_dict m2 (torch_load (torch_save (state_dict m1 (\<lambda>i. [real i])))) (\<lambda>i. []) = Inr \<theta>'
   \<and> ViT_forward (\<lambda>x. x) False (\<lambda>k b t j. True) (map_ViT \<theta>' m2) [[[[0]]]]
     = ViT_forward (\<lambda>x. x) False (\<lambda>k b t j. True) (map_ViT (\<lambda>i. [real i]) m1) [[[[0]]]]"
proof -
  obtain m1 k1' where m1: "ViT_init script_config 0 = Inr (m1, k1')"
    using script_config_constructs by blast
  have "\<not> isl (ViT_init script_config 1000)"
    by (rule ViT_init_succeeds) (simp_all add: script_config_def)
  then obtain m2 k2' where m2: "ViT_init script_config 1000 = Inr (m2, k2')"
    by (cases "ViT_init script_config 1000") auto
  from checkpoint_round_trip [OF m1 m2, of "\<lambda>i. [real i]" "\<lambda>i. []"]
  obtain \<theta>' where
    "load_state_dict m2 (torch_load (torch_save (state_dict m1 (\<lambda>i. [real i])))) (\<lambda>i. []) = Inr \<theta>'"
    "\<forall>g training \<nu> img.
        ViT_forward g training \<nu> (map_ViT \<theta>' m2) img
      = ViT_forward g training \<nu> (map_ViT (\<lambda>i. [real i]) m1) img"
    by blast
  then show ?thesis using m1 m2 by blast
qed

end
